theory Spec2Isabelle
  imports Complex_Main "HOL-Library.Multiset"
begin

section \<open>Data model\<close>

text \<open>
  Python exceptions raised by the modelled code are values of \<open>error\<close>; a function that
  can raise returns \<open>error + 'a\<close> with \<open>Inl\<close> for the raised exception.
\<close>

datatype error =
    RuntimeError string
  | ValueError string
  | IndexError
  | KeyError string
  | AttributeError
  | InvalidIndexError
  | JSONDecodeError string
  | UnicodeDecodeError
  | OSError string

text \<open>
  \<open>morpheus.common.TypeId\<close> is imported by the sources but declared elsewhere. The
  sources name \<open>TypeId.INT64\<close>, \<open>TypeId.FLOAT32\<close> and \<open>TypeId.STRING\<close>; every other member
  of the enumeration is \<open>Other_scalar\<close> with its name.
\<close>

datatype TypeId = INT64 | FLOAT32 | STRING | Other_scalar string

text \<open>
  A cell of a frame: Python \<open>None\<close>, the float NaN that pandas uses for missing values,
  a number (Python compares \<open>int\<close>, \<open>float\<close> and \<open>bool\<close> by numeric value), or a string.
\<close>

datatype cell = CNone | CNaN | CNum rat | CStr string

text \<open>
  The dtype of a column: either a dtype that the code names, or the one pandas infers
  from the values of the column, which is not modelled further.
\<close>

datatype dtype = Dtype string | Inferred

datatype frame_lib = Pandas | Cudf

text \<open>
  A DataFrame: its library (\<open>pd.DataFrame\<close> or \<open>cudf.DataFrame\<close>), the ordered column
  labels with their dtypes, and the rows in index order. Column labels may repeat, as
  pandas allows. \<open>len(df)\<close> is the number of rows.
\<close>

record dataframe =
  lib :: frame_lib
  header :: "(string \<times> dtype) list"
  rows :: "cell list list"

definition columns :: "dataframe \<Rightarrow> string list" where
  "columns df = map fst (header df)"

definition wf_frame :: "dataframe \<Rightarrow> bool" where
  "wf_frame df = list_all (\<lambda>r. length r = length (header df)) (rows df)"

text \<open>The values of column \<open>c\<close>, row by row (\<open>None\<close> where the row has no such column).\<close>

definition column_of :: "dataframe \<Rightarrow> string \<Rightarrow> cell option list" where
  "column_of df c = map (\<lambda>r. map_of (zip (columns df) r) c) (rows df)"

definition dtype_of :: "dataframe \<Rightarrow> string \<Rightarrow> dtype option" where
  "dtype_of df c = map_of (header df) c"

text \<open>
  \<open>df[c] = values\<close> with one value per row: an existing label keeps its position and
  every column carrying that label is overwritten; a new label is appended as the last
  column.
\<close>

definition setitem_array :: "dataframe \<Rightarrow> string \<Rightarrow> dtype \<Rightarrow> cell list \<Rightarrow> dataframe" where
  "setitem_array df c dt vs =
     (if c \<in> set (columns df)
      then df\<lparr>header := map (\<lambda>(k, d). if k = c then (k, dt) else (k, d)) (header df),
              rows := map2 (\<lambda>r v. map2 (\<lambda>k x. if k = c then v else x) (columns df) r)
                        (rows df) vs\<rparr>
      else df\<lparr>header := header df @ [(c, dt)],
              rows := map2 (\<lambda>r v. r @ [v]) (rows df) vs\<rparr>)"

text \<open>\<open>df[c] = scalar\<close>: the scalar is broadcast to every row.\<close>

definition setitem_scalar :: "dataframe \<Rightarrow> string \<Rightarrow> dtype \<Rightarrow> cell \<Rightarrow> dataframe" where
  "setitem_scalar df c dt v = setitem_array df c dt (replicate (length (rows df)) v)"

section \<open>PreallocatorMixin (morpheus/pipeline/preallocator\_mixin.py)\<close>

text \<open>\<open>np.zeros(n, dtype)\<close> and \<open>cp.zeros(n, dtype)\<close>: \<open>n\<close> zeros.\<close>

definition np_zeros :: "nat \<Rightarrow> string \<Rightarrow> cell list" where
  "np_zeros n column_type_str = replicate n (CNum 0)"

definition cp_zeros :: "nat \<Rightarrow> string \<Rightarrow> cell list" where
  "cp_zeros n column_type_str = replicate n (CNum 0)"

text \<open>
  \<open>typeid_to_numpy_str\<close> of \<open>morpheus.common\<close> is not among the sources: the model takes
  it as the parameter \<open>tns\<close>. \<open>numpy_str_of\<close> is a sample instance for concrete
  evaluations.
\<close>

fun numpy_str_of :: "TypeId \<Rightarrow> string" where
  "numpy_str_of INT64 = ''int64''"
| "numpy_str_of FLOAT32 = ''float32''"
| "numpy_str_of STRING = ''str''"
| "numpy_str_of (Other_scalar s) = s"

text \<open>
  The loop of \<open>_preallocate_df\<close> over \<open>missing_columns\<close>. \<open>_needed_columns\<close> is an
  \<open>OrderedDict\<close>, kept as the list of its items in order; each missing key is carried
  with the type the dictionary holds for it.
\<close>

fun preallocate_loop ::
  "(TypeId \<Rightarrow> string) \<Rightarrow> (nat \<Rightarrow> string \<Rightarrow> cell list) \<Rightarrow> nat \<Rightarrow> (string \<times> TypeId) list
     \<Rightarrow> dataframe \<Rightarrow> dataframe" where
  "preallocate_loop tns alloc_func num_rows [] df = df"
| "preallocate_loop tns alloc_func num_rows ((column_name, column_type) # rest) df =
     preallocate_loop tns alloc_func num_rows rest
       (if column_type \<noteq> STRING
        then setitem_array df column_name (Dtype (tns column_type))
               (alloc_func num_rows (tns column_type))
        else setitem_scalar df column_name (Dtype ''object'') (CStr ''''))"

definition preallocate_df ::
  "(TypeId \<Rightarrow> string) \<Rightarrow> (string \<times> TypeId) list \<Rightarrow> dataframe \<Rightarrow> dataframe" where
  "preallocate_df tns needed_columns df =
     (let missing_columns = filter (\<lambda>(col, t). col \<notin> set (columns df)) needed_columns
      in if length missing_columns > 0
         then let alloc_func = (if lib df = Cudf then cp_zeros else np_zeros);
                  num_rows = length (rows df)
              in preallocate_loop tns alloc_func num_rows missing_columns df
         else df)"

record MessageMeta =
  meta_df :: dataframe

record MultiMessage =
  meta :: MessageMeta
  mess_offset :: nat
  mess_count :: nat

definition preallocate_meta ::
  "(TypeId \<Rightarrow> string) \<Rightarrow> (string \<times> TypeId) list \<Rightarrow> MessageMeta \<Rightarrow> MessageMeta" where
  "preallocate_meta tns needed_columns msg =
     msg\<lparr>meta_df := preallocate_df tns needed_columns (meta_df msg)\<rparr>"

definition preallocate_multi ::
  "(TypeId \<Rightarrow> string) \<Rightarrow> (string \<times> TypeId) list \<Rightarrow> MultiMessage \<Rightarrow> MultiMessage" where
  "preallocate_multi tns needed_columns msg =
     msg\<lparr>meta := preallocate_meta tns needed_columns (meta msg)\<rparr>"

text \<open>
  A Python class as far as \<open>issubclass\<close> sees it: its name and the names of the classes
  in its method resolution order (itself first).
\<close>

record pytype =
  type_name :: string
  mro :: "string list"

definition issubclass :: "pytype \<Rightarrow> string list \<Rightarrow> bool" where
  "issubclass t classes = list_ex (\<lambda>c. c \<in> set (mro t)) classes"

text \<open>
  The segment under construction: the nodes made so far and the edges between them.
  A node is known by its name and the operator it runs.
\<close>

datatype node_op =
    Stage_op
  | Map_preallocate_meta
  | Map_preallocate_multi
  | Map_preallocate_df
  | PreallocateMessageMetaStage "(string \<times> TypeId) list"
  | PreallocateMultiMessageStage "(string \<times> TypeId) list"

record segment_object =
  node_name :: string
  node_operator :: node_op

record builder =
  nodes :: "segment_object list"
  edges :: "(segment_object \<times> segment_object) list"

definition make_node :: "builder \<Rightarrow> string \<Rightarrow> node_op \<Rightarrow> segment_object \<times> builder" where
  "make_node b name operator =
     (let node = \<lparr>node_name = name, node_operator = operator\<rparr>
      in (node, b\<lparr>nodes := nodes b @ [node]\<rparr>))"

definition make_edge :: "builder \<Rightarrow> segment_object \<Rightarrow> segment_object \<Rightarrow> builder" where
  "make_edge b source sink = b\<lparr>edges := edges b @ [(source, sink)]\<rparr>"

record stage =
  unique_name :: string
  needed_columns :: "(string \<times> TypeId) list"
  output_type :: pytype

text \<open>
  \<open>_post_build_single\<close>. \<open>should_use_cpp\<close> is \<open>CppConfig.get_should_use_cpp()\<close> and
  \<open>pretty_print_type_name\<close> (of \<open>morpheus.utils.type_utils\<close>) is a parameter. The result
  is the effective output node together with the builder after the calls.
\<close>

definition post_build_single ::
  "bool \<Rightarrow> (pytype \<Rightarrow> string) \<Rightarrow> stage \<Rightarrow> builder \<Rightarrow> segment_object
     \<Rightarrow> error + (segment_object \<times> builder)" where
  "post_build_single should_use_cpp pretty_print_type_name self b out_node =
     (let out_type = output_type self;
          pretty_type = pretty_print_type_name out_type
      in if length (needed_columns self) > 0
         then let name = unique_name self @ ''-preallocate''
              in (case
                    (if issubclass out_type [''MessageMeta'', ''MultiMessage'']
                     then (if should_use_cpp
                           then (if issubclass out_type [''MessageMeta'']
                                 then Inr (make_node b name
                                        (PreallocateMessageMetaStage (needed_columns self)))
                                 else Inr (make_node b name
                                        (PreallocateMultiMessageStage (needed_columns self))))
                           else (if issubclass out_type [''MessageMeta'']
                                 then Inr (make_node b name Map_preallocate_meta)
                                 else Inr (make_node b name Map_preallocate_multi)))
                     else if issubclass out_type [''cudf.DataFrame'', ''pd.DataFrame'']
                     then Inr (make_node b name Map_preallocate_df)
                     else Inl (RuntimeError
                            (''Additional columns were requested to be inserted into the ''
                             @ ''Dataframe, but the output type '' @ pretty_type
                             @ '' isn't a supported type'')))
                  of Inl e \<Rightarrow> Inl e
                   | Inr (node, b') \<Rightarrow> Inr (node, make_edge b' out_node node))
         else Inr (out_node, b))"

section \<open>Python and pandas primitives used by the source stage\<close>

text \<open>\<open>xs[i]\<close>: a negative index counts from the end; out of range raises \<open>IndexError\<close>.\<close>

definition py_index :: "'a list \<Rightarrow> int \<Rightarrow> error + 'a" where
  "py_index xs i =
     (let k = (if i < 0 then int (length xs) + i else i)
      in if k < 0 \<or> int (length xs) \<le> k then Inl IndexError else Inr (xs ! nat k))"

text \<open>\<open>s.split(sep)\<close> for a one-character separator: always at least one piece.\<close>

fun split_on :: "char \<Rightarrow> string \<Rightarrow> string list" where
  "split_on sep [] = [[]]"
| "split_on sep (c # s) =
     (if c = sep then [] # split_on sep s
      else (case split_on sep s of
              [] \<Rightarrow> [[c]]
            | piece # pieces \<Rightarrow> (c # piece) # pieces))"

text \<open>\<open>s.lower()\<close> on ASCII letters.\<close>

definition lower_char :: "char \<Rightarrow> char" where
  "lower_char c =
     (case map_of (zip ''ABCDEFGHIJKLMNOPQRSTUVWXYZ'' ''abcdefghijklmnopqrstuvwxyz'') c of
        Some l \<Rightarrow> l
      | None \<Rightarrow> c)"

definition py_lower :: "string \<Rightarrow> string" where
  "py_lower s = map lower_char s"

definition startswith :: "string \<Rightarrow> string \<Rightarrow> bool" where
  "startswith s pre = (take (length pre) s = pre)"

text \<open>
  \<open>int(s)\<close> on ASCII text: surrounding whitespace is ignored, a sign may lead, and single
  underscores may separate digits; anything else raises \<open>ValueError\<close>.
\<close>

definition digit_of :: "char \<Rightarrow> nat option" where
  "digit_of c =
     map_of [(CHR ''0'', 0), (CHR ''1'', 1), (CHR ''2'', 2), (CHR ''3'', 3), (CHR ''4'', 4),
             (CHR ''5'', 5), (CHR ''6'', 6), (CHR ''7'', 7), (CHR ''8'', 8), (CHR ''9'', 9)] c"

fun parse_digits :: "nat \<Rightarrow> string \<Rightarrow> nat option" where
  "parse_digits acc [] = Some acc"
| "parse_digits acc [c] =
     (case digit_of c of None \<Rightarrow> None | Some v \<Rightarrow> Some (10 * acc + v))"
| "parse_digits acc (c # d # s) =
     (if c = CHR ''_''
      then (case digit_of d of None \<Rightarrow> None | Some v \<Rightarrow> parse_digits (10 * acc + v) s)
      else (case digit_of c of None \<Rightarrow> None | Some v \<Rightarrow> parse_digits (10 * acc + v) (d # s)))"

definition parse_nat :: "string \<Rightarrow> nat option" where
  "parse_nat s =
     (case s of
        [] \<Rightarrow> None
      | c # rest \<Rightarrow> (case digit_of c of None \<Rightarrow> None | Some v \<Rightarrow> parse_digits v rest))"

definition is_space :: "char \<Rightarrow> bool" where
  "is_space c = (c \<in> set [CHR '' '', CHR 0x09, CHR 0x0A, CHR 0x0B, CHR 0x0C, CHR 0x0D])"

definition py_strip :: "string \<Rightarrow> string" where
  "py_strip s = rev (dropWhile is_space (rev (dropWhile is_space s)))"

definition py_int :: "string \<Rightarrow> error + int" where
  "py_int s =
     (let t = py_strip s;
          negative = (t \<noteq> [] \<and> hd t = CHR ''-'');
          body = (if t \<noteq> [] \<and> (hd t = CHR ''-'' \<or> hd t = CHR ''+'') then tl t else t)
      in case parse_nat body of
           None \<Rightarrow> Inl (ValueError (''invalid literal for int() with base 10: '' @ s))
         | Some n \<Rightarrow> Inr (if negative then - int n else int n))"

text \<open>
  The regular expressions the stage needs: a sequence of items, each one atom, or one
  atom repeated greedily one or more times, or the bounds of capture group 1.
  \<open>re_match\<close> matches at the start of the text, backtracking as \<open>re\<close> does (a repetition
  first tries to take one more character), and returns the text of group 1.
\<close>

datatype re_atom = Lit char | Any_char | Char_in "char list"

datatype re_item = One re_atom | Plus re_atom | Open_group | Close_group

fun atom_matches :: "re_atom \<Rightarrow> char \<Rightarrow> bool" where
  "atom_matches (Lit a) c = (c = a)"
| "atom_matches Any_char c = (c \<noteq> CHR 0x0A)"
| "atom_matches (Char_in cs) c = (c \<in> set cs)"

fun re_match :: "re_item list \<Rightarrow> bool \<Rightarrow> string \<Rightarrow> string \<Rightarrow> string option" where
  "re_match [] capturing captured s = Some captured"
| "re_match (Open_group # p) capturing captured s = re_match p True [] s"
| "re_match (Close_group # p) capturing captured s = re_match p False captured s"
| "re_match (One a # p) capturing captured [] = None"
| "re_match (One a # p) capturing captured (c # s) =
     (if atom_matches a c
      then re_match p capturing (if capturing then captured @ [c] else captured) s
      else None)"
| "re_match (Plus a # p) capturing captured [] = None"
| "re_match (Plus a # p) capturing captured (c # s) =
     (if atom_matches a c
      then (case re_match (Plus a # p) capturing (if capturing then captured @ [c] else captured) s of
              Some g \<Rightarrow> Some g
            | None \<Rightarrow> re_match p capturing (if capturing then captured @ [c] else captured) s)
      else None)"

text \<open>\<open>re.search\<close>: the match at the leftmost position that has one.\<close>

fun re_search :: "re_item list \<Rightarrow> string \<Rightarrow> string option" where
  "re_search p [] = re_match p False [] []"
| "re_search p (c # s) =
     (case re_match p False [] (c # s) of
        Some g \<Rightarrow> Some g
      | None \<Rightarrow> re_search p s)"

text \<open>The pattern \<^verbatim>\<open>[a-z]+_([0-9-_.]+).json\<close> of \<open>load_meta_cols\<close>.\<close>

definition ts_pattern :: "re_item list" where
  "ts_pattern =
     [Plus (Char_in ''abcdefghijklmnopqrstuvwxyz''), One (Lit CHR ''_''),
      Open_group, Plus (Char_in ''0123456789-_.''), Close_group,
      One Any_char, One (Lit CHR ''j''), One (Lit CHR ''s''), One (Lit CHR ''o''),
      One (Lit CHR ''n'')]"

text \<open>
  \<open>pd.DataFrame(columns=cols, data=d)\<close> for a list of rows: short rows are padded up to
  the longest one, and a width different from the number of labels raises
  \<open>ValueError\<close>. No rows give an empty frame with the labels.
\<close>

definition row_width :: "cell list list \<Rightarrow> nat" where
  "row_width d = foldr (\<lambda>r w. max (length r) w) d 0"

definition pd_DataFrame :: "string list \<Rightarrow> cell list list \<Rightarrow> error + dataframe" where
  "pd_DataFrame cols d =
     (if d = [] then Inr \<lparr>lib = Pandas, header = map (\<lambda>c. (c, Inferred)) cols, rows = []\<rparr>
      else if row_width d \<noteq> length cols
      then Inl (ValueError ''columns passed do not match the columns of the data'')
      else Inr \<lparr>lib = Pandas, header = map (\<lambda>c. (c, Inferred)) cols,
                rows = map (\<lambda>r. r @ replicate (row_width d - length r) CNone) d\<rparr>)"

text \<open>\<open>index.difference(other)\<close>: the labels of the index that are not in \<open>other\<close>.\<close>

definition index_difference :: "string list \<Rightarrow> string list \<Rightarrow> string list" where
  "index_difference idx other = remdups (filter (\<lambda>c. c \<notin> set other) idx)"

text \<open>\<open>df.drop(columns=labels)\<close>: a label that no column carries raises \<open>KeyError\<close>.\<close>

definition drop_columns :: "dataframe \<Rightarrow> string list \<Rightarrow> error + dataframe" where
  "drop_columns df labels =
     (case filter (\<lambda>l. l \<notin> set (columns df)) labels of
        l # _ \<Rightarrow> Inl (KeyError l)
      | [] \<Rightarrow> Inr (df\<lparr>header := filter (\<lambda>(k, d). k \<notin> set labels) (header df),
                      rows := map (\<lambda>r. map snd (filter (\<lambda>(k, v). k \<notin> set labels)
                                                   (zip (columns df) r))) (rows df)\<rparr>))"

text \<open>\<open>df[labels]\<close> with a list: the columns in the order of the list.\<close>

definition getitem_columns :: "dataframe \<Rightarrow> string list \<Rightarrow> error + dataframe" where
  "getitem_columns df labels =
     (case filter (\<lambda>l. l \<notin> set (columns df)) labels of
        l # _ \<Rightarrow> Inl (KeyError l)
      | [] \<Rightarrow> Inr (df\<lparr>header := concat (map (\<lambda>l. filter (\<lambda>(k, d). k = l) (header df)) labels),
                      rows := map (\<lambda>r. concat (map (\<lambda>l. map snd (filter (\<lambda>(k, v). k = l)
                                                   (zip (columns df) r))) labels)) (rows df)\<rparr>))"

text \<open>
  \<open>df[label]\<close> followed by a Series method: no such column raises \<open>KeyError\<close>; a label
  carried by several columns selects a frame, which has no \<open>unique\<close>.
\<close>

definition getitem_series :: "dataframe \<Rightarrow> string \<Rightarrow> error + cell list" where
  "getitem_series df label =
     (case filter (\<lambda>k. k = label) (columns df) of
        [] \<Rightarrow> Inl (KeyError label)
      | [k] \<Rightarrow> Inr (map (\<lambda>r. case map_of (zip (columns df) r) label of
                                Some v \<Rightarrow> v
                              | None \<Rightarrow> CNaN) (rows df))
      | _ # _ # _ \<Rightarrow> Inl AttributeError)"

text \<open>\<open>series.unique()\<close>: the distinct values in order of first appearance.\<close>

definition unique :: "'a list \<Rightarrow> 'a list" where
  "unique xs = rev (remdups (rev xs))"

text \<open>\<open>series == value\<close>, elementwise: a missing value equals nothing.\<close>

definition pd_eq :: "cell \<Rightarrow> cell \<Rightarrow> bool" where
  "pd_eq a b = (a = b \<and> a \<noteq> CNone \<and> a \<noteq> CNaN)"

text \<open>\<open>df[mask]\<close> with a boolean mask: the rows whose mask entry is true.\<close>

definition getitem_mask :: "dataframe \<Rightarrow> bool list \<Rightarrow> dataframe" where
  "getitem_mask df keep = df\<lparr>rows := map fst (filter snd (zip (rows df) keep))\<rparr>"

text \<open>
  \<open>pd.concat(frames)\<close>: no frames raise \<open>ValueError\<close>. Frames with the same labels are
  stacked. Otherwise the labels are united in order of first appearance and a cell of a
  column that a frame lacks is NaN; this needs the labels of each frame to be distinct.
\<close>

definition pd_concat :: "dataframe list \<Rightarrow> error + dataframe" where
  "pd_concat frames =
     (case frames of
        [] \<Rightarrow> Inl (ValueError ''No objects to concatenate'')
      | first # _ \<Rightarrow>
          if list_all (\<lambda>f. columns f = columns first) frames
          then Inr \<lparr>lib = lib first,
                    header = (if list_all (\<lambda>f. header f = header first) frames
                              then header first
                              else map (\<lambda>c. (c, Inferred)) (columns first)),
                    rows = concat (map rows frames)\<rparr>
          else if list_ex (\<lambda>f. \<not> distinct (columns f)) frames then Inl InvalidIndexError
          else let labels = unique (concat (map columns frames))
               in Inr \<lparr>lib = lib first,
                       header = map (\<lambda>c. (c, Inferred)) labels,
                       rows = concat (map (\<lambda>f. map (\<lambda>r. map (\<lambda>c.
                                 case map_of (zip (columns f) r) c of
                                   Some v \<Rightarrow> v
                                 | None \<Rightarrow> CNaN) labels) (rows f)) frames)\<rparr>)"

text \<open>\<open>d[k] = v\<close> on a dictionary kept as the list of its items in insertion order.\<close>

definition dict_set :: "('k \<times> 'v) list \<Rightarrow> 'k \<Rightarrow> 'v \<Rightarrow> ('k \<times> 'v) list" where
  "dict_set d k v =
     (if k \<in> set (map fst d)
      then map (\<lambda>(k', v'). if k' = k then (k', v) else (k', v')) d
      else d @ [(k, v)])"

section \<open>AppShieldSourceStage (morpheus/stages/input/appshield\_source\_stage.py)\<close>

text \<open>
  The content of one file as \<open>json.load\<close> returns it, in the shape the stage reads: the
  value under \<open>"titles"\<close> (column labels) and the value under \<open>"data"\<close> (rows of cells).
\<close>

record record_set =
  titles :: "string list"
  data :: "cell list list"

text \<open>
  The file system, as far as the stage sees it: for a path and an encoding, what
  \<open>open(path, encoding=...)\<close> followed by \<open>json.load\<close> gives, which is either a raised
  exception or the decoded record set.
\<close>

type_synonym file_system = "string \<Rightarrow> string \<Rightarrow> error + record_set"

text \<open>What the code does besides computing: files it opens and lines it logs.\<close>

datatype event =
    File_opened string string
  | Log_error string
  | Log_info string

fun json_decode_error_text :: "error \<Rightarrow> string option" where
  "json_decode_error_text (JSONDecodeError m) = Some m"
| "json_decode_error_text _ = None"

text \<open>
  \<open>except ValueError\<close> also catches the subclasses \<open>JSONDecodeError\<close> and
  \<open>UnicodeDecodeError\<close>.
\<close>

fun is_value_error :: "error \<Rightarrow> bool" where
  "is_value_error (ValueError m) = True"
| "is_value_error (JSONDecodeError m) = True"
| "is_value_error UnicodeDecodeError = True"
| "is_value_error _ = False"

text \<open>The loop of \<open>fill_interested_cols\<close>; \<open>cols_exists\<close> is read once, before the loop.\<close>

fun fill_loop :: "string list \<Rightarrow> string list \<Rightarrow> dataframe \<Rightarrow> dataframe" where
  "fill_loop cols_exists [] plugin_df = plugin_df"
| "fill_loop cols_exists (col # rest) plugin_df =
     fill_loop cols_exists rest
       (if col \<notin> set cols_exists
        then setitem_scalar plugin_df col (Dtype ''object'') CNone
        else plugin_df)"

definition fill_interested_cols :: "dataframe \<Rightarrow> string list \<Rightarrow> error + dataframe" where
  "fill_interested_cols plugin_df cols_include =
     (let cols_exists = columns plugin_df
      in getitem_columns (fill_loop cols_exists cols_include plugin_df) cols_include)"

text \<open>
  \<open>read_file_to_df\<close>; \<open>file\<close> is what \<open>json.load(file)\<close> gives. The \<open>except ValueError\<close>
  guards the first \<open>pd.DataFrame\<close> call only.
\<close>

definition read_file_to_df ::
  "error + record_set \<Rightarrow> string list \<Rightarrow> event list \<times> (error + dataframe)" where
  "read_file_to_df file cols_exclude =
     (case file of
        Inl e \<Rightarrow> ([], Inl e)
      | Inr d \<Rightarrow>
          let features_plugin = filter (\<lambda>col. col \<notin> set cols_exclude) (titles d)
          in (case pd_DataFrame features_plugin (data d) of
                Inr plugin_df \<Rightarrow> ([], Inr plugin_df)
              | Inl e \<Rightarrow>
                  if is_value_error e
                  then ([Log_info (''Failed to load partial set of columns from input data. ''
                                   @ ''Loading entire DataFrame and filtering.'')],
                        (case pd_DataFrame (titles d) (data d) of
                           Inl e' \<Rightarrow> Inl e'
                         | Inr plugin_df \<Rightarrow>
                             drop_columns plugin_df
                               (index_difference (columns plugin_df) features_plugin)))
                  else ([], Inl e)))"

definition load_df ::
  "file_system \<Rightarrow> string \<Rightarrow> string list \<Rightarrow> string \<Rightarrow> event list \<times> (error + dataframe)" where
  "load_df fs filepath cols_exclude encoding =
     (case read_file_to_df (fs filepath encoding) cols_exclude of
        (log1, Inr plugin_df) \<Rightarrow> (File_opened filepath encoding # log1, Inr plugin_df)
      | (log1, Inl e) \<Rightarrow>
          (case json_decode_error_text e of
             None \<Rightarrow> (File_opened filepath encoding # log1, Inl e)
           | Some decode_error \<Rightarrow>
               let log2 = File_opened filepath encoding # log1
                            @ [Log_error (''Unable to load '' @ filepath @ '' to dataframe with ''
                                          @ encoding @ '' encoding : '' @ decode_error)]
               in if startswith (py_lower encoding) ''utf''
                  then (log2, Inl e)
                  else (case read_file_to_df (fs filepath ''utf-8'') cols_exclude of
                          (log3, r) \<Rightarrow>
                            (log2 @ [Log_info (''Retrying... Attempting to load '' @ filepath
                                               @ '' with utf-8 encoding''),
                                     File_opened filepath ''utf-8''] @ log3, r))))"

definition load_meta_cols :: "string list \<Rightarrow> string \<Rightarrow> dataframe \<Rightarrow> error + dataframe" where
  "load_meta_cols filepath_split plugin plugin_df =
     (if length filepath_split < 3
      then Inl (ValueError ''Invalid filepath_split. Length should be greater than 2'')
      else
       (case py_index filepath_split (- 3) of Inl e \<Rightarrow> Inl e | Inr source \<Rightarrow>
       (case py_index filepath_split (- 2) of Inl e \<Rightarrow> Inl e | Inr snapshot_dir \<Rightarrow>
       (case py_index (split_on CHR ''-'' snapshot_dir) 1 of Inl e \<Rightarrow> Inl e | Inr token \<Rightarrow>
       (case py_int token of Inl e \<Rightarrow> Inl e | Inr snapshot_id \<Rightarrow>
       (case py_index filepath_split (- 1) of Inl e \<Rightarrow> Inl e | Inr file_name \<Rightarrow>
       (case re_search ts_pattern file_name of
          None \<Rightarrow> Inl (ValueError ''Invalid format for filepath_split'')
        | Some timestamp \<Rightarrow>
            Inr (setitem_scalar
                  (setitem_scalar
                    (setitem_scalar
                      (setitem_scalar plugin_df
                         ''snapshot_id'' (Dtype ''int64'') (CNum (of_int snapshot_id)))
                      ''timestamp'' (Dtype ''object'') (CStr timestamp))
                    ''source'' (Dtype ''object'') (CStr source))
                  ''plugin'' (Dtype ''object'') (CStr plugin)))))))))"

text \<open>The loop over \<open>unique_sources\<close> in \<open>batch_source_split\<close>.\<close>

fun split_loop ::
  "dataframe \<Rightarrow> cell list \<Rightarrow> cell list \<Rightarrow> (cell \<times> dataframe) list \<Rightarrow> (cell \<times> dataframe) list" where
  "split_loop combined_df source_column [] source_dfs = source_dfs"
| "split_loop combined_df source_column (source_name # rest) source_dfs =
     split_loop combined_df source_column rest
       (dict_set source_dfs source_name
          (getitem_mask combined_df (map (\<lambda>v. pd_eq v source_name) source_column)))"

definition batch_source_split ::
  "dataframe list \<Rightarrow> string \<Rightarrow> error + (cell \<times> dataframe) list" where
  "batch_source_split x source =
     (case pd_concat x of
        Inl e \<Rightarrow> Inl e
      | Inr combined_df \<Rightarrow>
          (case getitem_series combined_df source of
             Inl e \<Rightarrow> Inl e
           | Inr source_column \<Rightarrow>
               let unique_sources = unique source_column
               in if length unique_sources > 1
                  then Inr (split_loop combined_df source_column unique_sources [])
                  else (case py_index unique_sources 0 of
                          Inl e \<Rightarrow> Inl e
                        | Inr source_name \<Rightarrow> Inr (dict_set [] source_name combined_df))))"

text \<open>\<open>filepath_split[-1].split('_')[0]\<close>: the plugin a file belongs to.\<close>

definition plugin_of :: "string list \<Rightarrow> error + string" where
  "plugin_of filepath_split =
     (case py_index filepath_split (- 1) of
        Inl e \<Rightarrow> Inl e
      | Inr file_name \<Rightarrow> py_index (split_on CHR ''_'' file_name) 0)"

text \<open>
  The body of the \<open>try\<close> in \<open>files_to_dfs\<close> for one path: \<open>None\<close> when the plugin is not
  in \<open>plugins_include\<close>, otherwise the table of the file.
\<close>

definition file_to_df ::
  "file_system \<Rightarrow> string list \<Rightarrow> string list \<Rightarrow> string list \<Rightarrow> string \<Rightarrow> string
     \<Rightarrow> event list \<times> (error + dataframe option)" where
  "file_to_df fs cols_include cols_exclude plugins_include encoding filepath =
     (let filepath_split = split_on CHR ''/'' filepath
      in (case plugin_of filepath_split of
            Inl e \<Rightarrow> ([], Inl e)
          | Inr plugin \<Rightarrow>
              if plugin \<in> set plugins_include
              then (case load_df fs filepath cols_exclude encoding of
                      (trace, Inl e) \<Rightarrow> (trace, Inl e)
                    | (trace, Inr plugin_df) \<Rightarrow>
                        (case fill_interested_cols plugin_df cols_include of
                           Inl e \<Rightarrow> (trace, Inl e)
                         | Inr filled_df \<Rightarrow>
                             (case load_meta_cols filepath_split plugin filled_df of
                                Inl e \<Rightarrow> (trace, Inl e)
                              | Inr tagged_df \<Rightarrow> (trace, Inr (Some tagged_df)))))
              else ([], Inr None)))"

text \<open>
  The loop of \<open>files_to_dfs\<close>: a \<open>JSONDecodeError\<close> from the body is logged and the loop
  goes on; any other exception leaves the loop and the function.
\<close>

fun files_loop ::
  "file_system \<Rightarrow> string list \<Rightarrow> string list \<Rightarrow> string list \<Rightarrow> string \<Rightarrow> string list
     \<Rightarrow> event list \<Rightarrow> dataframe list \<Rightarrow> event list \<times> (error + dataframe list)" where
  "files_loop fs cols_include cols_exclude plugins_include encoding [] trace plugin_dfs =
     (trace, Inr plugin_dfs)"
| "files_loop fs cols_include cols_exclude plugins_include encoding (filepath # rest) trace
     plugin_dfs =
     (case file_to_df fs cols_include cols_exclude plugins_include encoding filepath of
        (log1, Inr None) \<Rightarrow>
          files_loop fs cols_include cols_exclude plugins_include encoding rest
            (trace @ log1) plugin_dfs
      | (log1, Inr (Some plugin_df)) \<Rightarrow>
          files_loop fs cols_include cols_exclude plugins_include encoding rest
            (trace @ log1) (plugin_dfs @ [plugin_df])
      | (log1, Inl e) \<Rightarrow>
          (case json_decode_error_text e of
             Some decode_error \<Rightarrow>
               files_loop fs cols_include cols_exclude plugins_include encoding rest
                 (trace @ log1 @ [Log_error (''Unable to decode json file '' @ filepath @ '': ''
                                           @ decode_error)])
                 plugin_dfs
           | None \<Rightarrow> (trace @ log1, Inl e)))"

definition files_to_dfs ::
  "file_system \<Rightarrow> string list \<Rightarrow> string list \<Rightarrow> string list \<Rightarrow> string list \<Rightarrow> string
     \<Rightarrow> event list \<times> (error + (cell \<times> dataframe) list)" where
  "files_to_dfs fs x cols_include cols_exclude plugins_include encoding =
     (case files_loop fs cols_include cols_exclude plugins_include encoding x [] [] of
        (trace, Inl e) \<Rightarrow> (trace, Inl e)
      | (trace, Inr plugin_dfs) \<Rightarrow> (trace, batch_source_split plugin_dfs ''source''))"

text \<open>The files that a trace shows as opened, with the encoding, in order.\<close>

fun opened :: "event list \<Rightarrow> (string \<times> string) list" where
  "opened [] = []"
| "opened (File_opened path encoding # es) = (path, encoding) # opened es"
| "opened (Log_error m # es) = opened es"
| "opened (Log_info m # es) = opened es"

section \<open>Sample inputs\<close>

definition sample_frame :: dataframe where
  "sample_frame =
     \<lparr>lib = Pandas, header = [(''a'', Dtype ''object'')], rows = [[CStr ''x''], [CStr ''y'']]\<rparr>"

definition sample_spec :: "(string \<times> TypeId) list" where
  "sample_spec = [(''a'', INT64), (''b'', FLOAT32), (''c'', STRING)]"

definition dict_type :: pytype where
  "dict_type = \<lparr>type_name = ''dict'', mro = [''dict'', ''object'']\<rparr>"

definition sample_node :: segment_object where
  "sample_node = \<lparr>node_name = ''from-appshield-0'', node_operator = Stage_op\<rparr>"

definition sample_builder :: builder where
  "sample_builder = \<lparr>nodes = [sample_node], edges = []\<rparr>"

definition sample_stage :: "(string \<times> TypeId) list \<Rightarrow> stage" where
  "sample_stage needed =
     \<lparr>unique_name = ''from-appshield-0'', needed_columns = needed, output_type = dict_type\<rparr>"

definition sample_record_set :: record_set where
  "sample_record_set = \<lparr>titles = [''a'', ''b''], data = [[CNum 1, CNum 2]]\<rparr>"

definition utf8_only_fs :: file_system where
  "utf8_only_fs path encoding =
     (if encoding = ''utf-8'' then Inr sample_record_set
      else Inl (JSONDecodeError ''Expecting value''))"

definition broken_fs :: file_system where
  "broken_fs path encoding = Inl (JSONDecodeError ''Expecting value'')"

definition table_A :: dataframe where
  "table_A = \<lparr>lib = Pandas, header = [(''a'', Inferred), (''source'', Dtype ''object'')],
              rows = [[CNum 1, CStr ''hostA''], [CNum 2, CStr ''hostA'']]\<rparr>"

definition table_B :: dataframe where
  "table_B = \<lparr>lib = Pandas, header = [(''a'', Inferred), (''source'', Dtype ''object'')],
              rows = [[CNum 3, CStr ''hostB'']]\<rparr>"

definition empty_table :: dataframe where
  "empty_table = \<lparr>lib = Pandas, header = [(''a'', Inferred), (''source'', Dtype ''object'')],
                  rows = []\<rparr>"

definition no_rows_fs :: file_system where
  "no_rows_fs path encoding = Inr \<lparr>titles = [''a''], data = []\<rparr>"

definition batch_fs :: file_system where
  "batch_fs path encoding =
     (if path = ''/data/hostA/snap-42/proc_2023-01-03.json''
      then Inl (JSONDecodeError ''Expecting value'')
      else Inr sample_record_set)"

definition batch_table :: "rat \<Rightarrow> string \<Rightarrow> string \<Rightarrow> dataframe" where
  "batch_table snap ts host =
     \<lparr>lib = Pandas,
      header = [(''a'', Inferred), (''snapshot_id'', Dtype ''int64''),
                (''timestamp'', Dtype ''object''), (''source'', Dtype ''object''),
                (''plugin'', Dtype ''object'')],
      rows = [[CNum 1, CNum snap, CStr ts, CStr host, CStr ''proc'']]\<rparr>"

section \<open>Frames: assignment of a column\<close>

lemma map2_replicate_rows:
  "map2 f xs (replicate (length xs) v) = map (\<lambda>x. f x v) xs"
  by (induction xs) simp_all

lemma rows_setitem_scalar:
  "rows (setitem_scalar df c dt v) =
     (if c \<in> set (columns df)
      then map (\<lambda>r. map2 (\<lambda>k x. if k = c then v else x) (columns df) r) (rows df)
      else map (\<lambda>r. r @ [v]) (rows df))"
  by (simp add: setitem_scalar_def setitem_array_def map2_replicate_rows)

lemma header_setitem_scalar:
  "header (setitem_scalar df c dt v) =
     (if c \<in> set (columns df)
      then map (\<lambda>(k, d). if k = c then (k, dt) else (k, d)) (header df)
      else header df @ [(c, dt)])"
  by (simp add: setitem_scalar_def setitem_array_def)

lemma lib_setitem_scalar: "lib (setitem_scalar df c dt v) = lib df"
  by (simp add: setitem_scalar_def setitem_array_def)

lemma columns_setitem_scalar:
  "columns (setitem_scalar df c dt v) =
     (if c \<in> set (columns df) then columns df else columns df @ [c])"
  by (auto simp: header_setitem_scalar columns_def split_def intro!: map_idI)

lemma length_rows_setitem_scalar:
  "length (rows (setitem_scalar df c dt v)) = length (rows df)"
  by (simp add: rows_setitem_scalar)

lemma wf_setitem_scalar:
  "wf_frame df \<Longrightarrow> wf_frame (setitem_scalar df c dt v)"
  by (auto simp: wf_frame_def list_all_iff rows_setitem_scalar header_setitem_scalar columns_def)

lemma map_of_zip_overwrite:
  "length ks = length r \<Longrightarrow>
   map_of (zip ks (map2 (\<lambda>k x. if k = c then v else x) ks r)) c' =
     (if c' = c \<and> c \<in> set ks then Some v else map_of (zip ks r) c')"
  by (induction ks r rule: list_induct2) auto

lemma map_of_zip_snoc:
  "length ks = length r \<Longrightarrow>
   map_of (zip (ks @ [c]) (r @ [v])) c' =
     (if c' \<in> set ks then map_of (zip ks r) c' else if c' = c then Some v else None)"
  by (induction ks r rule: list_induct2) auto

lemma map_of_zip_None:
  "length ks = length r \<Longrightarrow> c' \<notin> set ks \<Longrightarrow> map_of (zip ks r) c' = None"
  by (induction ks r rule: list_induct2) auto

lemma map_all_same:
  "(\<And>x. x \<in> set xs \<Longrightarrow> f x = a) \<Longrightarrow> map f xs = replicate (length xs) a"
  by (induction xs) simp_all

lemma column_of_setitem_scalar:
  assumes "wf_frame df"
  shows "column_of (setitem_scalar df c dt v) c' =
           (if c' = c then replicate (length (rows df)) (Some v) else column_of df c')"
proof -
  have len: "\<And>r. r \<in> set (rows df) \<Longrightarrow> length (columns df) = length r"
    using assms by (simp add: wf_frame_def list_all_iff columns_def)
  show ?thesis
  proof (cases "c \<in> set (columns df)")
    case True
    have "column_of (setitem_scalar df c dt v) c' =
            map (\<lambda>r. map_of (zip (columns df)
                   (map2 (\<lambda>k x. if k = c then v else x) (columns df) r)) c') (rows df)"
      using True by (simp add: column_of_def rows_setitem_scalar columns_setitem_scalar comp_def)
    also have "\<dots> = map (\<lambda>r. if c' = c then Some v else map_of (zip (columns df) r) c') (rows df)"
      by (rule map_cong[OF refl]) (simp add: map_of_zip_overwrite[OF len] True)
    also have "\<dots> = (if c' = c then replicate (length (rows df)) (Some v) else column_of df c')"
      by (simp add: column_of_def map_replicate_const)
    finally show ?thesis .
  next
    case False
    have "column_of (setitem_scalar df c dt v) c' =
            map (\<lambda>r. map_of (zip (columns df @ [c]) (r @ [v])) c') (rows df)"
      using False by (simp add: column_of_def rows_setitem_scalar columns_setitem_scalar comp_def)
    also have "\<dots> = map (\<lambda>r. if c' = c then Some v else map_of (zip (columns df) r) c') (rows df)"
    proof (rule map_cong[OF refl])
      fix r assume r: "r \<in> set (rows df)"
      show "map_of (zip (columns df @ [c]) (r @ [v])) c' =
              (if c' = c then Some v else map_of (zip (columns df) r) c')"
        using False map_of_zip_None[OF len[OF r], of c']
        by (auto simp: map_of_zip_snoc[OF len[OF r]])
    qed
    also have "\<dots> = (if c' = c then replicate (length (rows df)) (Some v) else column_of df c')"
      by (simp add: column_of_def map_replicate_const)
    finally show ?thesis .
  qed
qed

lemma map_of_overwrite_other:
  "c' \<noteq> c \<Longrightarrow>
   map_of (map (\<lambda>(k, d). if k = c then (k, dt) else (k, d)) h) c' = map_of h c'"
  by (induction h) (simp_all add: split_def)

lemma map_of_overwrite_same:
  "c \<in> fst ` set h \<Longrightarrow>
   map_of (map (\<lambda>(k, d). if k = c then (k, dt) else (k, d)) h) c = Some dt"
  by (induction h) (auto simp: split_def)

lemma map_of_snoc_other:
  "c' \<noteq> c \<Longrightarrow> map_of (h @ [(c, dt)]) c' = map_of h c'"
  by (simp add: map_add_def split: option.split)

lemma map_of_snoc_same:
  assumes "c \<notin> fst ` set h"
  shows "map_of (h @ [(c, dt)]) c = Some dt"
proof -
  from assms have "map_of h c = None" by (simp add: map_of_eq_None_iff)
  then show ?thesis by (simp add: map_add_def)
qed

lemma dtype_of_setitem_scalar_same:
  "dtype_of (setitem_scalar df c dt v) c = Some dt"
proof (cases "c \<in> set (columns df)")
  case True
  then have "c \<in> fst ` set (header df)" by (simp add: columns_def)
  then show ?thesis
    using True by (simp add: dtype_of_def header_setitem_scalar map_of_overwrite_same)
next
  case False
  then have "c \<notin> fst ` set (header df)" by (simp add: columns_def)
  then show ?thesis
    using False
    by (simp add: dtype_of_def header_setitem_scalar map_of_snoc_same del: map_of_append)
qed

lemma dtype_of_setitem_scalar_other:
  "c' \<noteq> c \<Longrightarrow> dtype_of (setitem_scalar df c dt v) c' = dtype_of df c'"
  by (cases "c \<in> set (columns df)")
     (simp_all add: dtype_of_def header_setitem_scalar
        map_of_overwrite_other map_of_snoc_other del: map_of_append)

lemma columns_setitem_array:
  "columns (setitem_array df c dt vs) = (if c \<in> set (columns df) then columns df else columns df @ [c])"
  by (auto simp: setitem_array_def columns_def split_def intro!: map_idI)

lemma set_columns_preallocate_loop:
  "set (columns (preallocate_loop tns af n ms df)) = set (columns df) \<union> fst ` set ms"
proof (induction ms arbitrary: df)
  case Nil
  show ?case by simp
next
  case (Cons m ms)
  obtain c t where m: "m = (c, t)" by (cases m)
  show ?case unfolding m
    by (simp add: Cons.IH columns_setitem_array columns_setitem_scalar) blast
qed

lemma set_columns_preallocate_df:
  "set (columns (preallocate_df tns S df)) = set (columns df) \<union> fst ` set S"
  by (auto simp: preallocate_df_def Let_def set_columns_preallocate_loop filter_empty_conv)

lemma preallocate_df_no_missing:
  "fst ` set S \<subseteq> set (columns df) \<Longrightarrow> preallocate_df tns S df = df"
  by (auto simp: preallocate_df_def Let_def filter_empty_conv)

section \<open>Column completion\<close>

lemma preallocate_step:
  assumes "alloc_func = np_zeros \<or> alloc_func = cp_zeros" and "n = length (rows df)"
  shows "(if t \<noteq> STRING
          then setitem_array df c (Dtype (tns t)) (alloc_func n (tns t))
          else setitem_scalar df c (Dtype ''object'') (CStr '''')) =
         setitem_scalar df c (if t = STRING then Dtype ''object'' else Dtype (tns t))
           (if t = STRING then CStr '''' else CNum 0)"
  using assms by (auto simp: setitem_scalar_def np_zeros_def cp_zeros_def)

lemma preallocate_loop_invariant:
  assumes "wf_frame df" and "distinct (map fst ms)"
    and "set (map fst ms) \<inter> set (columns df) = {}"
    and "alloc_func = np_zeros \<or> alloc_func = cp_zeros" and "n = length (rows df)"
  shows "wf_frame (preallocate_loop tns alloc_func n ms df)
       \<and> length (rows (preallocate_loop tns alloc_func n ms df)) = n
       \<and> (\<forall>c. c \<notin> set (map fst ms) \<longrightarrow>
             column_of (preallocate_loop tns alloc_func n ms df) c = column_of df c
           \<and> dtype_of (preallocate_loop tns alloc_func n ms df) c = dtype_of df c)
       \<and> (\<forall>(c, t) \<in> set ms.
             dtype_of (preallocate_loop tns alloc_func n ms df) c =
               Some (if t = STRING then Dtype ''object'' else Dtype (tns t))
           \<and> column_of (preallocate_loop tns alloc_func n ms df) c =
               replicate n (Some (if t = STRING then CStr '''' else CNum 0)))"
  using assms
proof (induction ms arbitrary: df)
  case Nil
  then show ?case by simp
next
  case (Cons m ms)
  obtain c t where m: "m = (c, t)" by (cases m)
  define dt where "dt = (if t = STRING then Dtype ''object'' else Dtype (tns t))"
  define fv where "fv = (if t = STRING then CStr '''' else CNum 0)"
  define df' where "df' = setitem_scalar df c dt fv"
  have step: "preallocate_loop tns alloc_func n (m # ms) df = preallocate_loop tns alloc_func n ms df'"
    unfolding m df'_def dt_def fv_def
    using preallocate_step[OF Cons.prems(4) Cons.prems(5), of t c tns] by simp
  have c_new: "c \<notin> set (columns df)" and c_rest: "c \<notin> set (map fst ms)"
    and dist: "distinct (map fst ms)"
    and disj: "set (map fst ms) \<inter> set (columns df) = {}"
    using Cons.prems(2,3) unfolding m by auto
  have wf': "wf_frame df'" unfolding df'_def by (rule wf_setitem_scalar[OF Cons.prems(1)])
  have len': "n = length (rows df')"
    unfolding df'_def using Cons.prems(5) by (simp add: length_rows_setitem_scalar)
  have cols': "set (map fst ms) \<inter> set (columns df') = {}"
    unfolding df'_def using c_new c_rest disj by (auto simp: columns_setitem_scalar)
  note IH = Cons.IH[OF wf' dist cols' Cons.prems(4) len']
  have col_c: "column_of df' c = replicate n (Some fv)" and dty_c: "dtype_of df' c = Some dt"
    unfolding df'_def using Cons.prems(1,5)
    by (simp_all add: column_of_setitem_scalar dtype_of_setitem_scalar_same)
  have other: "c' \<noteq> c \<Longrightarrow> column_of df' c' = column_of df c' \<and> dtype_of df' c' = dtype_of df c'" for c'
    unfolding df'_def using Cons.prems(1)
    by (simp add: column_of_setitem_scalar dtype_of_setitem_scalar_other)
  have A: "wf_frame (preallocate_loop tns alloc_func n (m # ms) df)"
    and B: "length (rows (preallocate_loop tns alloc_func n (m # ms) df)) = n"
    unfolding step using IH by simp_all
  have C: "\<forall>c'. c' \<notin> set (map fst (m # ms)) \<longrightarrow>
             column_of (preallocate_loop tns alloc_func n (m # ms) df) c' = column_of df c'
           \<and> dtype_of (preallocate_loop tns alloc_func n (m # ms) df) c' = dtype_of df c'"
    unfolding step using IH other unfolding m by simp
  have D1: "dtype_of (preallocate_loop tns alloc_func n (m # ms) df) c = Some dt
          \<and> column_of (preallocate_loop tns alloc_func n (m # ms) df) c = replicate n (Some fv)"
    unfolding step using IH c_rest col_c dty_c by simp
  have D: "\<forall>(c', t') \<in> set (m # ms).
             dtype_of (preallocate_loop tns alloc_func n (m # ms) df) c' =
               Some (if t' = STRING then Dtype ''object'' else Dtype (tns t'))
           \<and> column_of (preallocate_loop tns alloc_func n (m # ms) df) c' =
               replicate n (Some (if t' = STRING then CStr '''' else CNum 0))"
    using D1 IH unfolding step[symmetric] m dt_def fv_def by auto
  from A B C D show ?case by blast
qed

lemma filter_missing_props:
  assumes "distinct (map fst S)"
  shows "distinct (map fst (filter (\<lambda>(col, t). col \<notin> set cs) S))"
    and "set (map fst (filter (\<lambda>(col, t). col \<notin> set cs) S)) \<inter> set cs = {}"
  using assms by (auto simp: distinct_map_filter)

text \<open>
  C1, as the code has it. For a frame whose rows have one cell per column and a
  needed-columns dictionary (keys distinct), \<open>_preallocate_df\<close> returns a frame with the
  same number of rows in which every key of the dictionary is a column; a column that was
  missing has the declared dtype (\<open>object\<close> for \<open>STRING\<close>) and holds zero in every row,
  or the empty string for \<open>STRING\<close>; a column that was present keeps its values and its
  own dtype.
\<close>

theorem preallocate_df_completes_columns:
  assumes "wf_frame F" and "distinct (map fst S)"
  shows "wf_frame (preallocate_df tns S F)
       \<and> length (rows (preallocate_df tns S F)) = length (rows F)
       \<and> (\<forall>(c, t) \<in> set S. c \<in> set (columns (preallocate_df tns S F)))
       \<and> (\<forall>(c, t) \<in> set S. c \<notin> set (columns F) \<longrightarrow>
             dtype_of (preallocate_df tns S F) c =
               Some (if t = STRING then Dtype ''object'' else Dtype (tns t))
           \<and> column_of (preallocate_df tns S F) c =
               replicate (length (rows F)) (Some (if t = STRING then CStr '''' else CNum 0)))
       \<and> (\<forall>c \<in> set (columns F).
             dtype_of (preallocate_df tns S F) c = dtype_of F c
           \<and> column_of (preallocate_df tns S F) c = column_of F c)"
proof -
  define ms where "ms = filter (\<lambda>(col, t). col \<notin> set (columns F)) S"
  define af where "af = (if lib F = Cudf then cp_zeros else np_zeros)"
  have eq: "preallocate_df tns S F = preallocate_loop tns af (length (rows F)) ms F"
    unfolding preallocate_df_def ms_def af_def Let_def by (cases "filter (\<lambda>(col, t). col \<notin> set (columns F)) S") simp_all
  have af: "af = np_zeros \<or> af = cp_zeros" unfolding af_def by simp
  have d: "distinct (map fst ms)" and i: "set (map fst ms) \<inter> set (columns F) = {}"
    unfolding ms_def using filter_missing_props[OF assms(2)] by blast+
  note inv = preallocate_loop_invariant[OF assms(1) d i af refl, of tns, folded eq]
  have cols: "\<forall>(c, t) \<in> set S. c \<in> set (columns (preallocate_df tns S F))"
    using set_columns_preallocate_df[of tns S F] by force
  have miss: "\<forall>(c, t) \<in> set S. c \<notin> set (columns F) \<longrightarrow>
             dtype_of (preallocate_df tns S F) c =
               Some (if t = STRING then Dtype ''object'' else Dtype (tns t))
           \<and> column_of (preallocate_df tns S F) c =
               replicate (length (rows F)) (Some (if t = STRING then CStr '''' else CNum 0))"
    using inv unfolding ms_def by auto
  have keep: "\<forall>c \<in> set (columns F).
             dtype_of (preallocate_df tns S F) c = dtype_of F c
           \<and> column_of (preallocate_df tns S F) c = column_of F c"
  proof
    fix c assume "c \<in> set (columns F)"
    with i have "c \<notin> set (map fst ms)" by blast
    with inv show "dtype_of (preallocate_df tns S F) c = dtype_of F c
           \<and> column_of (preallocate_df tns S F) c = column_of F c" by blast
  qed
  from inv cols miss keep show ?thesis by blast
qed

text \<open>The theorem at a frame with column \<open>a\<close> and the needed columns \<open>a\<close>, \<open>b\<close>, \<open>c\<close>.\<close>

theorem preallocate_df_completes_columns_witness:
  "wf_frame sample_frame \<and> distinct (map fst sample_spec)
   \<and> dtype_of (preallocate_df numpy_str_of sample_spec sample_frame) ''b'' = Some (Dtype ''float32'')
   \<and> column_of (preallocate_df numpy_str_of sample_spec sample_frame) ''b''
       = [Some (CNum 0), Some (CNum 0)]
   \<and> column_of (preallocate_df numpy_str_of sample_spec sample_frame) ''c''
       = [Some (CStr ''''), Some (CStr '''')]
   \<and> column_of (preallocate_df numpy_str_of sample_spec sample_frame) ''a''
       = [Some (CStr ''x''), Some (CStr ''y'')]"
proof -
  have h1: "wf_frame sample_frame" by (simp add: wf_frame_def sample_frame_def)
  have h2: "distinct (map fst sample_spec)" by (simp add: sample_spec_def)
  have cols: "columns sample_frame = [''a'']" by (simp add: columns_def sample_frame_def)
  have len: "length (rows sample_frame) = 2" by (simp add: sample_frame_def)
  have old: "column_of sample_frame ''a'' = [Some (CStr ''x''), Some (CStr ''y'')]"
    by (simp add: column_of_def columns_def sample_frame_def)
  from preallocate_df_completes_columns[OF h1 h2, of numpy_str_of] h1 h2
  show ?thesis
    by (simp add: cols len old sample_spec_def numeral_2_eq_2)
qed

text \<open>
  A column that is present is not given the declared type: \<open>a\<close> is declared \<open>INT64\<close> and
  stays an \<open>object\<close> column.
\<close>

theorem declared_type_not_imposed:
  "(''a'', INT64) \<in> set sample_spec
   \<and> dtype_of (preallocate_df numpy_str_of sample_spec sample_frame) ''a''
       \<noteq> Some (Dtype (numpy_str_of INT64))"
  by (simp add: sample_spec_def sample_frame_def preallocate_df_def columns_def dtype_of_def
        np_zeros_def setitem_array_def setitem_scalar_def)

text \<open>
  C2. Completing the columns twice with the same needed columns gives the same frame as
  completing them once.
\<close>

theorem preallocate_df_idempotent:
  "preallocate_df tns S (preallocate_df tns S F) = preallocate_df tns S F"
  by (rule preallocate_df_no_missing) (simp add: set_columns_preallocate_df)

section \<open>Insertion of the completion node\<close>

text \<open>
  C7. With needed columns, \<open>_post_build_single\<close> either makes the node
  \<open>unique_name-preallocate\<close> and the edge from the output node to it, when the output
  type is a subclass of \<open>MessageMeta\<close>, \<open>MultiMessage\<close> or of a DataFrame class, or it
  raises \<open>RuntimeError\<close> with the printed name of the output type in the message. It
  never returns the stage's own node.
\<close>

theorem post_build_single_inserts_or_raises:
  assumes "needed_columns self \<noteq> []"
  shows "if issubclass (output_type self) [''MessageMeta'', ''MultiMessage'']
            \<or> issubclass (output_type self) [''cudf.DataFrame'', ''pd.DataFrame'']
         then \<exists>node b'. post_build_single should_use_cpp pretty self b out_node = Inr (node, b')
                \<and> node_name node = unique_name self @ ''-preallocate''
                \<and> node \<in> set (nodes b') \<and> (out_node, node) \<in> set (edges b')
         else post_build_single should_use_cpp pretty self b out_node =
                Inl (RuntimeError
                      (''Additional columns were requested to be inserted into the ''
                       @ ''Dataframe, but the output type '' @ pretty (output_type self)
                       @ '' isn't a supported type''))"
  using assms
  by (auto simp: post_build_single_def Let_def make_node_def make_edge_def)

text \<open>The theorem at a stage whose output type is \<open>dict\<close>.\<close>

theorem post_build_single_inserts_or_raises_witness:
  "needed_columns (sample_stage sample_spec) \<noteq> []
   \<and> post_build_single False type_name (sample_stage sample_spec) sample_builder sample_node =
       Inl (RuntimeError
             (''Additional columns were requested to be inserted into the ''
              @ ''Dataframe, but the output type dict isn't a supported type''))"
proof -
  have h: "needed_columns (sample_stage sample_spec) \<noteq> []"
    by (simp add: sample_stage_def sample_spec_def)
  from post_build_single_inserts_or_raises[OF h, of False type_name sample_builder sample_node] h
  show ?thesis
    by (simp add: sample_stage_def dict_type_def issubclass_def)
qed

text \<open>
  C9. Without needed columns, \<open>_post_build_single\<close> makes no node and no edge and returns
  the stage's own output node; and completing the columns of a frame against the empty
  dictionary returns the frame as it is.
\<close>

theorem empty_spec_inserts_nothing:
  assumes "needed_columns self = []"
  shows "post_build_single should_use_cpp pretty self b out_node = Inr (out_node, b)
       \<and> preallocate_df tns (needed_columns self) df = df"
  using assms by (simp add: post_build_single_def preallocate_df_def)

text \<open>The theorem at a stage without needed columns.\<close>

theorem empty_spec_inserts_nothing_witness:
  "needed_columns (sample_stage []) = []
   \<and> post_build_single False type_name (sample_stage []) sample_builder sample_node =
       Inr (sample_node, sample_builder)
   \<and> preallocate_df numpy_str_of (needed_columns (sample_stage [])) sample_frame = sample_frame"
proof -
  have h: "needed_columns (sample_stage []) = []" by (simp add: sample_stage_def)
  from empty_spec_inserts_nothing[OF h, of False type_name sample_builder sample_node
         numpy_str_of sample_frame] h
  show ?thesis by simp
qed

section \<open>Metadata columns\<close>

lemma sample_path_split:
  "split_on CHR ''/'' ''/data/hostA/snap-42/proc_2023-01-02.json'' =
     ['''', ''data'', ''hostA'', ''snap-42'', ''proc_2023-01-02.json'']"
  by simp

lemma sample_snapshot_id: "py_int ''42'' = Inr 42"
  by (simp add: py_int_def py_strip_def is_space_def parse_nat_def digit_of_def)

lemma sample_timestamp: "re_search ts_pattern ''proc_2023-01-02.json'' = Some ''2023-01-02''"
  by (simp add: ts_pattern_def)

lemma load_meta_cols_sample_path:
  "load_meta_cols (split_on CHR ''/'' ''/data/hostA/snap-42/proc_2023-01-02.json'') plugin plugin_df =
     Inr (setitem_scalar
           (setitem_scalar
             (setitem_scalar
               (setitem_scalar plugin_df ''snapshot_id'' (Dtype ''int64'') (CNum 42))
               ''timestamp'' (Dtype ''object'') (CStr ''2023-01-02''))
             ''source'' (Dtype ''object'') (CStr ''hostA''))
           ''plugin'' (Dtype ''object'') (CStr plugin))"
  unfolding sample_path_split
  by (simp add: load_meta_cols_def py_index_def sample_snapshot_id sample_timestamp
        del: re_search.simps)

lemma rows_setitem_scalar_new:
  "c \<notin> set (columns df) \<Longrightarrow> rows (setitem_scalar df c dt v) = map (\<lambda>r. r @ [v]) (rows df)"
  "c \<notin> set (columns df) \<Longrightarrow> columns (setitem_scalar df c dt v) = columns df @ [c]"
  by (simp_all add: rows_setitem_scalar columns_setitem_scalar)

text \<open>
  C4. For the path \<^verbatim>\<open>/data/hostA/snap-42/proc_2023-01-02.json\<close> split at \<^verbatim>\<open>/\<close>,
  \<open>load_meta_cols\<close> returns a frame in which every row holds \<open>hostA\<close> under \<open>source\<close>,
  42 under \<open>snapshot_id\<close>, \<open>2023-01-02\<close> under \<open>timestamp\<close> and the plugin under \<open>plugin\<close>;
  every other column is as before, and when the frame had none of the four labels they
  are appended as new columns, in the order \<open>snapshot_id\<close>, \<open>timestamp\<close>, \<open>source\<close>,
  \<open>plugin\<close>.
\<close>

theorem metadata_derivation:
  assumes "wf_frame plugin_df"
  shows "\<exists>R. load_meta_cols (split_on CHR ''/'' ''/data/hostA/snap-42/proc_2023-01-02.json'')
                plugin plugin_df = Inr R
       \<and> length (rows R) = length (rows plugin_df)
       \<and> column_of R ''source'' = replicate (length (rows plugin_df)) (Some (CStr ''hostA''))
       \<and> column_of R ''snapshot_id'' = replicate (length (rows plugin_df)) (Some (CNum 42))
       \<and> column_of R ''timestamp'' = replicate (length (rows plugin_df)) (Some (CStr ''2023-01-02''))
       \<and> column_of R ''plugin'' = replicate (length (rows plugin_df)) (Some (CStr plugin))
       \<and> (\<forall>c. c \<notin> {''snapshot_id'', ''timestamp'', ''source'', ''plugin''} \<longrightarrow>
             column_of R c = column_of plugin_df c)
       \<and> (set (columns plugin_df) \<inter> {''snapshot_id'', ''timestamp'', ''source'', ''plugin''} = {} \<longrightarrow>
             columns R = columns plugin_df @ [''snapshot_id'', ''timestamp'', ''source'', ''plugin'']
           \<and> rows R = map (\<lambda>r. r @ [CNum 42, CStr ''2023-01-02'', CStr ''hostA'', CStr plugin])
                         (rows plugin_df))"
proof -
  define d1 where "d1 = setitem_scalar plugin_df ''snapshot_id'' (Dtype ''int64'') (CNum 42)"
  define d2 where "d2 = setitem_scalar d1 ''timestamp'' (Dtype ''object'') (CStr ''2023-01-02'')"
  define d3 where "d3 = setitem_scalar d2 ''source'' (Dtype ''object'') (CStr ''hostA'')"
  define d4 where "d4 = setitem_scalar d3 ''plugin'' (Dtype ''object'') (CStr plugin)"
  have res: "load_meta_cols (split_on CHR ''/'' ''/data/hostA/snap-42/proc_2023-01-02.json'')
                plugin plugin_df = Inr d4"
    unfolding d4_def d3_def d2_def d1_def by (rule load_meta_cols_sample_path)
  have wf1: "wf_frame d1" unfolding d1_def by (rule wf_setitem_scalar[OF assms])
  have wf2: "wf_frame d2" unfolding d2_def by (rule wf_setitem_scalar[OF wf1])
  have wf3: "wf_frame d3" unfolding d3_def by (rule wf_setitem_scalar[OF wf2])
  have l1: "length (rows d1) = length (rows plugin_df)"
    unfolding d1_def by (rule length_rows_setitem_scalar)
  have l2: "length (rows d2) = length (rows plugin_df)"
    unfolding d2_def using l1 by (simp add: length_rows_setitem_scalar)
  have l3: "length (rows d3) = length (rows plugin_df)"
    unfolding d3_def using l2 by (simp add: length_rows_setitem_scalar)
  have l4: "length (rows d4) = length (rows plugin_df)"
    unfolding d4_def using l3 by (simp add: length_rows_setitem_scalar)
  have col: "column_of d4 c =
      (if c = ''plugin'' then replicate (length (rows plugin_df)) (Some (CStr plugin))
       else if c = ''source'' then replicate (length (rows plugin_df)) (Some (CStr ''hostA''))
       else if c = ''timestamp'' then replicate (length (rows plugin_df)) (Some (CStr ''2023-01-02''))
       else if c = ''snapshot_id'' then replicate (length (rows plugin_df)) (Some (CNum 42))
       else column_of plugin_df c)" for c
    unfolding d4_def column_of_setitem_scalar[OF wf3]
    unfolding d3_def column_of_setitem_scalar[OF wf2]
    unfolding d2_def column_of_setitem_scalar[OF wf1]
    unfolding d1_def column_of_setitem_scalar[OF assms]
    using l1 l2 l3 unfolding d1_def d2_def d3_def by simp
  have new: "columns d4 = columns plugin_df @ [''snapshot_id'', ''timestamp'', ''source'', ''plugin'']
           \<and> rows d4 = map (\<lambda>r. r @ [CNum 42, CStr ''2023-01-02'', CStr ''hostA'', CStr plugin])
                         (rows plugin_df)"
    if "set (columns plugin_df) \<inter> {''snapshot_id'', ''timestamp'', ''source'', ''plugin''} = {}"
  proof -
    from that have n: "''snapshot_id'' \<notin> set (columns plugin_df)"
      "''timestamp'' \<notin> set (columns plugin_df)" "''source'' \<notin> set (columns plugin_df)"
      "''plugin'' \<notin> set (columns plugin_df)" by auto
    have c1: "columns d1 = columns plugin_df @ [''snapshot_id'']"
      and r1: "rows d1 = map (\<lambda>r. r @ [CNum 42]) (rows plugin_df)"
      unfolding d1_def using n by (simp_all add: rows_setitem_scalar_new)
    have c2: "columns d2 = columns plugin_df @ [''snapshot_id'', ''timestamp'']"
      and r2: "rows d2 = map (\<lambda>r. r @ [CNum 42, CStr ''2023-01-02'']) (rows plugin_df)"
      unfolding d2_def using n c1 r1 by (simp_all add: rows_setitem_scalar_new)
    have c3: "columns d3 = columns plugin_df @ [''snapshot_id'', ''timestamp'', ''source'']"
      and r3: "rows d3 = map (\<lambda>r. r @ [CNum 42, CStr ''2023-01-02'', CStr ''hostA'']) (rows plugin_df)"
      unfolding d3_def using n c2 r2 by (simp_all add: rows_setitem_scalar_new)
    show ?thesis
      unfolding d4_def using n c3 r3 by (simp_all add: rows_setitem_scalar_new)
  qed
  show ?thesis
    using res l4 col new by (intro exI[of _ d4]) simp
qed

text \<open>The theorem at a frame of two rows with the single column \<open>a\<close>.\<close>

theorem metadata_derivation_witness:
  "wf_frame sample_frame
   \<and> (\<exists>R. load_meta_cols (split_on CHR ''/'' ''/data/hostA/snap-42/proc_2023-01-02.json'')
              ''proc'' sample_frame = Inr R
        \<and> columns R = [''a'', ''snapshot_id'', ''timestamp'', ''source'', ''plugin'']
        \<and> rows R = [[CStr ''x'', CNum 42, CStr ''2023-01-02'', CStr ''hostA'', CStr ''proc''],
                    [CStr ''y'', CNum 42, CStr ''2023-01-02'', CStr ''hostA'', CStr ''proc'']])"
proof -
  have h: "wf_frame sample_frame" by (simp add: wf_frame_def sample_frame_def)
  have c: "columns sample_frame = [''a'']" by (simp add: columns_def sample_frame_def)
  have r: "rows sample_frame = [[CStr ''x''], [CStr ''y'']]" by (simp add: sample_frame_def)
  from metadata_derivation[OF h, of "''proc''"] h show ?thesis
    unfolding c r by auto
qed

section \<open>Reading one file\<close>

lemma opened_append: "opened (xs @ ys) = opened xs @ opened ys"
  by (induction xs rule: opened.induct) simp_all

lemma opened_read_file_to_df: "opened (fst (read_file_to_df file cols_exclude)) = []"
  by (auto simp: read_file_to_df_def Let_def split: sum.splits)

lemma read_file_to_df_raise: "read_file_to_df (Inl e) cols_exclude = ([], Inl e)"
  by (simp add: read_file_to_df_def)

text \<open>
  C5, as the code has it. When \<open>json.load\<close> raises \<open>JSONDecodeError\<close> under the
  configured encoding: if the encoding in lower case starts with \<open>utf\<close>, that error is
  raised again and the file has been opened once; otherwise the file is opened a second
  time, with \<open>utf-8\<close>, and what that attempt gives (a table or an exception) is the
  result.
\<close>

theorem load_df_retry_policy:
  assumes "fs filepath encoding = Inl (JSONDecodeError m)"
  shows "if startswith (py_lower encoding) ''utf''
         then snd (load_df fs filepath cols_exclude encoding) = Inl (JSONDecodeError m)
            \<and> opened (fst (load_df fs filepath cols_exclude encoding)) = [(filepath, encoding)]
         else snd (load_df fs filepath cols_exclude encoding) =
                snd (read_file_to_df (fs filepath ''utf-8'') cols_exclude)
            \<and> opened (fst (load_df fs filepath cols_exclude encoding)) =
                [(filepath, encoding), (filepath, ''utf-8'')]"
proof -
  obtain log3 r where second: "read_file_to_df (fs filepath ''utf-8'') cols_exclude = (log3, r)"
    by (cases "read_file_to_df (fs filepath ''utf-8'') cols_exclude")
  have o3: "opened log3 = []"
    using opened_read_file_to_df[of "fs filepath ''utf-8''" cols_exclude] second by simp
  show ?thesis
    using o3 by (simp add: load_df_def assms read_file_to_df_raise second opened_append)
qed

text \<open>The theorem with \<open>latin1\<close> configured, on a file that only decodes as \<open>utf-8\<close>.\<close>

theorem load_df_retry_policy_witness:
  "utf8_only_fs ''f.json'' ''latin1'' = Inl (JSONDecodeError ''Expecting value'')
   \<and> opened (fst (load_df utf8_only_fs ''f.json'' [] ''latin1'')) =
       [(''f.json'', ''latin1''), (''f.json'', ''utf-8'')]
   \<and> snd (load_df utf8_only_fs ''f.json'' [] ''latin1'') =
       snd (read_file_to_df (Inr sample_record_set) [])"
proof -
  have h: "utf8_only_fs ''f.json'' ''latin1'' = Inl (JSONDecodeError ''Expecting value'')"
    by (simp add: utf8_only_fs_def)
  have u: "utf8_only_fs ''f.json'' ''utf-8'' = Inr sample_record_set"
    by (simp add: utf8_only_fs_def)
  have l: "\<not> startswith (py_lower ''latin1'') ''utf''"
    by (simp add: startswith_def py_lower_def lower_char_def)
  from load_df_retry_policy[of utf8_only_fs "''f.json''" "''latin1''" "''Expecting value''" "[]"] h l u
  show ?thesis by simp
qed

text \<open>
  With \<open>utf-16\<close> configured, which is not \<open>utf-8\<close>, the error is raised again without a
  second attempt, although the file decodes as \<open>utf-8\<close>.
\<close>

theorem utf16_failure_not_retried:
  "''utf-16'' \<noteq> ''utf-8''
   \<and> utf8_only_fs ''f.json'' ''utf-16'' = Inl (JSONDecodeError ''Expecting value'')
   \<and> utf8_only_fs ''f.json'' ''utf-8'' = Inr sample_record_set
   \<and> opened (fst (load_df utf8_only_fs ''f.json'' [] ''utf-16'')) = [(''f.json'', ''utf-16'')]
   \<and> snd (load_df utf8_only_fs ''f.json'' [] ''utf-16'') = Inl (JSONDecodeError ''Expecting value'')"
  by (simp add: load_df_def utf8_only_fs_def read_file_to_df_def startswith_def py_lower_def
        lower_char_def)

lemma pd_DataFrame_columns: "pd_DataFrame cs d = Inr df \<Longrightarrow> columns df = cs"
  by (auto simp: pd_DataFrame_def columns_def comp_def split: if_splits)

lemma pd_DataFrame_error: "pd_DataFrame cs d = Inl e \<Longrightarrow> is_value_error e"
  by (auto simp: pd_DataFrame_def split: if_splits)

lemma columns_update: "columns (df\<lparr>header := h, rows := r\<rparr>) = map fst h"
  by (simp add: columns_def)

lemma drop_columns_difference:
  "drop_columns full (index_difference (columns full) features) =
     Inr (full\<lparr>header := filter (\<lambda>(k, d). k \<in> set features) (header full),
               rows := map (\<lambda>r. map snd (filter (\<lambda>(k, v). k \<in> set features)
                                            (zip (columns full) r))) (rows full)\<rparr>)"
proof -
  have none: "filter (\<lambda>l. l \<notin> set (columns full)) (index_difference (columns full) features) = []"
    by (auto simp: index_difference_def filter_empty_conv)
  have h: "filter (\<lambda>(k, d). k \<notin> set (index_difference (columns full) features)) (header full)
           = filter (\<lambda>(k, d). k \<in> set features) (header full)"
    by (rule filter_cong[OF refl]) (force simp: index_difference_def columns_def)
  have r: "filter (\<lambda>(k, v). k \<notin> set (index_difference (columns full) features))
             (zip (columns full) row)
           = filter (\<lambda>(k, v). k \<in> set features) (zip (columns full) row)" for row
    by (rule filter_cong[OF refl]) (auto simp: index_difference_def dest: set_zip_leftD)
  show ?thesis
    by (simp add: drop_columns_def none h r)
qed

lemma filter_in_filter:
  "filter (\<lambda>k. k \<in> set (filter P xs)) xs = filter P xs"
  by (rule filter_cong[OF refl]) simp

lemma filter_once: "distinct xs \<Longrightarrow> l \<in> set xs \<Longrightarrow> filter (\<lambda>k. k = l) xs = [l]"
  by (induction xs) (auto simp: filter_empty_conv)

lemma set_columns_fill_loop:
  "set (columns (fill_loop ce incl df)) = set (columns df) \<union> {c \<in> set incl. c \<notin> set ce}"
  by (induction incl arbitrary: df) (auto simp: columns_setitem_scalar)

lemma distinct_columns_fill_loop:
  "distinct (columns df) \<Longrightarrow> distinct (columns (fill_loop ce incl df))"
  by (induction incl arbitrary: df) (auto simp: columns_setitem_scalar)

lemma fill_interested_cols_columns:
  assumes "distinct (columns df)"
  shows "\<exists>R. fill_interested_cols df cols_include = Inr R \<and> columns R = cols_include"
proof -
  define filled where "filled = fill_loop (columns df) cols_include df"
  have sub: "set cols_include \<subseteq> set (columns filled)"
    unfolding filled_def by (auto simp: set_columns_fill_loop)
  have dist: "distinct (columns filled)"
    unfolding filled_def by (rule distinct_columns_fill_loop[OF assms])
  have none: "filter (\<lambda>l. l \<notin> set (columns filled)) cols_include = []"
    using sub by (auto simp: filter_empty_conv)
  have pick: "map fst (filter (\<lambda>(k, d). k = l) (header filled)) = filter (\<lambda>k. k = l) (columns filled)" for l
    by (simp add: columns_def filter_map comp_def split_def)
  have "map fst (concat (map (\<lambda>l. filter (\<lambda>(k, d). k = l) (header filled)) cols_include))
          = concat (map (\<lambda>l. filter (\<lambda>k. k = l) (columns filled)) cols_include)"
    by (simp add: map_concat comp_def pick)
  also have "\<dots> = concat (map (\<lambda>l. [l]) cols_include)"
    using sub dist by (intro arg_cong[where f=concat] map_cong refl filter_once) auto
  also have "\<dots> = cols_include" by (induction cols_include) simp_all
  finally show ?thesis
    by (simp add: fill_interested_cols_def Let_def filled_def[symmetric] getitem_columns_def none
          columns_update)
qed

text \<open>
  C8, as the code has it. The first attempt of \<open>read_file_to_df\<close> builds the table from
  the titles that are not in the exclude list; if it succeeds, that table is returned.
  If it raises and the build from all titles succeeds, the excluded columns are dropped
  from that table, which leaves the same column labels as the first attempt asks for.
  The include list plays no part in either attempt: \<open>fill_interested_cols\<close> applies it
  afterwards and, on a table with distinct labels, returns exactly the columns of the
  include list, in its order.
\<close>

theorem read_file_to_df_paths:
  "(\<forall>df. pd_DataFrame (filter (\<lambda>col. col \<notin> set cols_exclude) (titles d)) (data d) = Inr df \<longrightarrow>
       read_file_to_df (Inr d) cols_exclude = ([], Inr df)
     \<and> columns df = filter (\<lambda>col. col \<notin> set cols_exclude) (titles d))
 \<and> (\<forall>e full. pd_DataFrame (filter (\<lambda>col. col \<notin> set cols_exclude) (titles d)) (data d) = Inl e \<longrightarrow>
       pd_DataFrame (titles d) (data d) = Inr full \<longrightarrow>
       (\<exists>df. read_file_to_df (Inr d) cols_exclude =
               ([Log_info (''Failed to load partial set of columns from input data. ''
                           @ ''Loading entire DataFrame and filtering.'')], Inr df)
          \<and> columns df = filter (\<lambda>col. col \<notin> set cols_exclude) (titles d)
          \<and> rows df = map (\<lambda>r. map snd (filter (\<lambda>(k, v). k \<notin> set cols_exclude)
                                           (zip (titles d) r))) (rows full)))
 \<and> (\<forall>df. distinct (columns df) \<longrightarrow>
       (\<exists>R. fill_interested_cols df cols_include = Inr R \<and> columns R = cols_include))"
proof (intro conjI allI impI)
  fix df
  assume ok: "pd_DataFrame (filter (\<lambda>col. col \<notin> set cols_exclude) (titles d)) (data d) = Inr df"
  show "read_file_to_df (Inr d) cols_exclude = ([], Inr df)"
    by (simp add: read_file_to_df_def ok)
  show "columns df = filter (\<lambda>col. col \<notin> set cols_exclude) (titles d)"
    by (rule pd_DataFrame_columns[OF ok])
next
  fix e full
  assume bad: "pd_DataFrame (filter (\<lambda>col. col \<notin> set cols_exclude) (titles d)) (data d) = Inl e"
    and ok: "pd_DataFrame (titles d) (data d) = Inr full"
  let ?features = "filter (\<lambda>col. col \<notin> set cols_exclude) (titles d)"
  let ?df = "full\<lparr>header := filter (\<lambda>(k, d). k \<in> set ?features) (header full),
                  rows := map (\<lambda>r. map snd (filter (\<lambda>(k, v). k \<in> set ?features)
                                            (zip (columns full) r))) (rows full)\<rparr>"
  have cf: "columns full = titles d" by (rule pd_DataFrame_columns[OF ok])
  have res: "read_file_to_df (Inr d) cols_exclude =
               ([Log_info (''Failed to load partial set of columns from input data. ''
                           @ ''Loading entire DataFrame and filtering.'')], Inr ?df)"
    using pd_DataFrame_error[OF bad]
    by (simp add: read_file_to_df_def bad ok drop_columns_difference)
  have "columns ?df = filter (\<lambda>k. k \<in> set ?features) (columns full)"
    by (simp add: columns_def filter_map comp_def split_def)
  then have cols: "columns ?df = ?features"
    unfolding cf by (simp only: filter_in_filter)
  have fr: "filter (\<lambda>(k, v). k \<in> set ?features) (zip (titles d) r)
          = filter (\<lambda>(k, v). k \<notin> set cols_exclude) (zip (titles d) r)" for r
    by (rule filter_cong[OF refl]) (auto dest: set_zip_leftD)
  have "rows ?df = map (\<lambda>r. map snd (filter (\<lambda>(k, v). k \<in> set ?features)
                                           (zip (titles d) r))) (rows full)"
    by (simp add: cf del: set_filter)
  then have rws: "rows ?df = map (\<lambda>r. map snd (filter (\<lambda>(k, v). k \<notin> set cols_exclude)
                                           (zip (titles d) r))) (rows full)"
    unfolding fr .
  from res cols rws
  show "\<exists>df. read_file_to_df (Inr d) cols_exclude =
               ([Log_info (''Failed to load partial set of columns from input data. ''
                           @ ''Loading entire DataFrame and filtering.'')], Inr df)
          \<and> columns df = filter (\<lambda>col. col \<notin> set cols_exclude) (titles d)
          \<and> rows df = map (\<lambda>r. map snd (filter (\<lambda>(k, v). k \<notin> set cols_exclude)
                                           (zip (titles d) r))) (rows full)"
    by blast
next
  fix df :: dataframe
  assume "distinct (columns df)"
  then show "\<exists>R. fill_interested_cols df cols_include = Inr R \<and> columns R = cols_include"
    by (rule fill_interested_cols_columns)
qed

text \<open>
  The theorem at titles \<open>a\<close>, \<open>b\<close> and one row: excluding \<open>b\<close> takes the second attempt,
  excluding nothing takes the first.
\<close>

theorem read_file_to_df_paths_witness:
  "(\<exists>df. read_file_to_df (Inr sample_record_set) [''b''] =
           ([Log_info (''Failed to load partial set of columns from input data. ''
                       @ ''Loading entire DataFrame and filtering.'')], Inr df)
       \<and> columns df = [''a''] \<and> rows df = [[CNum 1]])
 \<and> (\<exists>df. read_file_to_df (Inr sample_record_set) [] = ([], Inr df)
       \<and> columns df = [''a'', ''b''])
 \<and> distinct (columns sample_frame)
 \<and> (\<exists>R. fill_interested_cols sample_frame [''z'', ''a''] = Inr R \<and> columns R = [''z'', ''a''])"
proof -
  have t: "titles sample_record_set = [''a'', ''b'']"
    and d: "data sample_record_set = [[CNum 1, CNum 2]]"
    by (simp_all add: sample_record_set_def)
  have e1: "pd_DataFrame (filter (\<lambda>col. col \<notin> set [''b'']) (titles sample_record_set))
              (data sample_record_set)
            = Inl (ValueError ''columns passed do not match the columns of the data'')"
    by (simp add: t d pd_DataFrame_def row_width_def)
  have e2: "pd_DataFrame (titles sample_record_set) (data sample_record_set)
            = Inr \<lparr>lib = Pandas, header = [(''a'', Inferred), (''b'', Inferred)],
                   rows = [[CNum 1, CNum 2]]\<rparr>"
    by (simp add: t d pd_DataFrame_def row_width_def)
  have e3: "pd_DataFrame (filter (\<lambda>col. col \<notin> set []) (titles sample_record_set))
              (data sample_record_set)
            = Inr \<lparr>lib = Pandas, header = [(''a'', Inferred), (''b'', Inferred)],
                   rows = [[CNum 1, CNum 2]]\<rparr>"
    by (simp add: t d pd_DataFrame_def row_width_def)
  have dc: "distinct (columns sample_frame)" by (simp add: columns_def sample_frame_def)
  from read_file_to_df_paths[of "[''b'']" sample_record_set "[''z'', ''a'']"] e1 e2 dc
  have A: "\<exists>df. read_file_to_df (Inr sample_record_set) [''b''] =
           ([Log_info (''Failed to load partial set of columns from input data. ''
                       @ ''Loading entire DataFrame and filtering.'')], Inr df)
       \<and> columns df = [''a''] \<and> rows df = [[CNum 1]]"
    and C: "\<exists>R. fill_interested_cols sample_frame [''z'', ''a''] = Inr R \<and> columns R = [''z'', ''a'']"
    by (simp_all add: t)
  from read_file_to_df_paths[of "[]" sample_record_set "[]"] e3
  have B: "\<exists>df. read_file_to_df (Inr sample_record_set) [] = ([], Inr df)
       \<and> columns df = [''a'', ''b'']"
    by (simp add: t)
  from A B C dc show ?thesis by blast
qed

text \<open>
  With nothing excluded the first attempt builds both columns \<open>a\<close> and \<open>b\<close>, although the
  include list is \<open>a\<close> alone; \<open>b\<close> goes only in \<open>fill_interested_cols\<close>.
\<close>

theorem happy_path_ignores_include_list:
  "read_file_to_df (Inr sample_record_set) [] =
     ([], Inr \<lparr>lib = Pandas, header = [(''a'', Inferred), (''b'', Inferred)],
               rows = [[CNum 1, CNum 2]]\<rparr>)
   \<and> fill_interested_cols
       \<lparr>lib = Pandas, header = [(''a'', Inferred), (''b'', Inferred)],
        rows = [[CNum 1, CNum 2]]\<rparr> [''a''] =
     Inr \<lparr>lib = Pandas, header = [(''a'', Inferred)], rows = [[CNum 1]]\<rparr>"
  by (simp add: read_file_to_df_def sample_record_set_def pd_DataFrame_def row_width_def
        fill_interested_cols_def getitem_columns_def columns_def)

section \<open>A batch of files\<close>

lemma split_on_nonempty: "split_on sep s \<noteq> []"
  by (induction s) (auto split: list.splits)

lemma py_index_last: "xs \<noteq> [] \<Longrightarrow> py_index xs (- 1) = Inr (last xs)"
  by (cases xs rule: rev_cases) (auto simp: py_index_def nth_append)

lemma py_index_first: "xs \<noteq> [] \<Longrightarrow> py_index xs 0 = Inr (hd xs)"
  by (cases xs) (auto simp: py_index_def)

lemma plugin_of_split:
  "plugin_of (split_on CHR ''/'' p) = Inr (hd (split_on CHR ''_'' (last (split_on CHR ''/'' p))))"
  by (simp add: plugin_of_def py_index_last py_index_first split_on_nonempty)

lemma files_loop_skips:
  assumes "\<forall>p \<in> set x. snd (file_to_df fs ci ce plugins enc p) = Inr None
             \<or> (\<exists>m. snd (file_to_df fs ci ce plugins enc p) = Inl (JSONDecodeError m))"
  shows "snd (files_loop fs ci ce plugins enc x trace dfs) = Inr dfs"
  using assms
proof (induction x arbitrary: trace)
  case Nil
  show ?case by simp
next
  case (Cons p x)
  obtain l r where f: "file_to_df fs ci ce plugins enc p = (l, r)"
    by (cases "file_to_df fs ci ce plugins enc p")
  from Cons.prems have rest: "\<forall>p \<in> set x. snd (file_to_df fs ci ce plugins enc p) = Inr None
             \<or> (\<exists>m. snd (file_to_df fs ci ce plugins enc p) = Inl (JSONDecodeError m))" by simp
  from Cons.prems f have "r = Inr None \<or> (\<exists>m. r = Inl (JSONDecodeError m))" by simp
  then show ?case
    using Cons.IH[OF rest] by (auto simp: f)
qed

lemma file_to_df_skipped:
  assumes "(\<exists>g. plugin_of (split_on CHR ''/'' p) = Inr g \<and> g \<notin> set plugins)
         \<or> (\<exists>m. snd (load_df fs p ce enc) = Inl (JSONDecodeError m))"
  shows "snd (file_to_df fs ci ce plugins enc p) = Inr None
       \<or> (\<exists>m. snd (file_to_df fs ci ce plugins enc p) = Inl (JSONDecodeError m))"
proof -
  obtain l r where ld: "load_df fs p ce enc = (l, r)" by (cases "load_df fs p ce enc")
  show ?thesis
    using assms
    by (auto simp: file_to_df_def Let_def plugin_of_split ld split: sum.splits)
qed

text \<open>
  C10. If every file of the batch either belongs to a plugin that is not in
  \<open>plugins_include\<close> or makes \<open>load_df\<close> raise \<open>JSONDecodeError\<close>, then \<open>files_to_dfs\<close>
  raises the \<open>ValueError\<close> of \<open>pd.concat\<close> on an empty list instead of returning an
  empty dictionary.
\<close>

theorem all_files_skipped_raises:
  assumes "\<forall>p \<in> set x.
             (\<exists>g. plugin_of (split_on CHR ''/'' p) = Inr g \<and> g \<notin> set plugins_include)
           \<or> (\<exists>m. snd (load_df fs p cols_exclude encoding) = Inl (JSONDecodeError m))"
  shows "snd (files_to_dfs fs x cols_include cols_exclude plugins_include encoding) =
           Inl (ValueError ''No objects to concatenate'')"
proof -
  have "snd (files_loop fs cols_include cols_exclude plugins_include encoding x [] []) = Inr []"
    by (rule files_loop_skips) (use assms file_to_df_skipped in blast)
  then show ?thesis
    by (cases "files_loop fs cols_include cols_exclude plugins_include encoding x [] []")
       (simp add: files_to_dfs_def batch_source_split_def pd_concat_def)
qed

text \<open>The theorem at a batch of one file of an unknown plugin and one file of invalid JSON.\<close>

theorem all_files_skipped_raises_witness:
  "snd (files_to_dfs broken_fs
         [''/data/hostA/snap-1/other_2023-01-02.json'', ''/data/hostA/snap-1/proc_2023-01-02.json'']
         [''a''] [] [''proc''] ''latin1'') =
     Inl (ValueError ''No objects to concatenate'')"
proof -
  have b: "snd (load_df broken_fs ''/data/hostA/snap-1/proc_2023-01-02.json'' [] ''latin1'') =
             Inl (JSONDecodeError ''Expecting value'')"
    by (simp add: load_df_def broken_fs_def read_file_to_df_def startswith_def py_lower_def
          lower_char_def)
  show ?thesis
    by (rule all_files_skipped_raises) (simp add: plugin_of_def py_index_def b)
qed

section \<open>Partition by source\<close>

lemma filter_label_count: "length (filter (\<lambda>k. k = x) xs) = count_list xs x"
  by (induction xs) simp_all

lemma filter_label_single:
  assumes "count_list xs x = 1"
  shows "filter (\<lambda>k. k = x) xs = [x]"
proof -
  have "length (filter (\<lambda>k. k = x) xs) = 1" using assms by (simp add: filter_label_count)
  then obtain k where k: "filter (\<lambda>k. k = x) xs = [k]"
    by (cases "filter (\<lambda>k. k = x) xs") auto
  then have "k \<in> set (filter (\<lambda>k. k = x) xs)" by simp
  then have "k = x" by simp
  with k show ?thesis by simp
qed

lemma set_unique: "set (unique xs) = set xs"
  by (simp add: unique_def)

lemma distinct_unique: "distinct (unique xs)"
  by (simp add: unique_def)

lemma mask_filter: "map fst (filter snd (zip xs (map f xs))) = filter f xs"
  by (induction xs) simp_all

lemma getitem_mask_column:
  "getitem_mask df (map (\<lambda>v. pd_eq v k) (map g (rows df))) =
     df\<lparr>rows := filter (\<lambda>r. pd_eq (g r) k) (rows df)\<rparr>"
  using mask_filter[of "rows df" "\<lambda>r. pd_eq (g r) k"]
  by (simp add: getitem_mask_def comp_def)

lemma dict_set_new: "k \<notin> fst ` set d \<Longrightarrow> dict_set d k v = d @ [(k, v)]"
  by (simp add: dict_set_def)

lemma split_loop_distinct:
  "distinct ks \<Longrightarrow> set ks \<inter> fst ` set acc = {} \<Longrightarrow>
   split_loop df col ks acc =
     acc @ map (\<lambda>k. (k, getitem_mask df (map (\<lambda>v. pd_eq v k) col))) ks"
proof (induction ks arbitrary: acc)
  case Nil
  show ?case by simp
next
  case (Cons k ks)
  from Cons.prems have new: "k \<notin> fst ` set acc" and d: "distinct ks" and k: "k \<notin> set ks"
    and rest: "set ks \<inter> fst ` set acc = {}" by auto
  have "set ks \<inter> fst ` set (acc @ [(k, getitem_mask df (map (\<lambda>v. pd_eq v k) col))]) = {}"
    using rest k by auto
  from Cons.IH[OF d this] show ?case
    by (simp add: dict_set_new[OF new])
qed

lemma mset_filter_disjoint:
  "(\<And>r. r \<in> set rs \<Longrightarrow> \<not> (P r \<and> Q r)) \<Longrightarrow>
   mset (filter P rs) + mset (filter Q rs) = mset (filter (\<lambda>r. P r \<or> Q r) rs)"
  by (induction rs) auto

lemma partition_sum:
  "distinct ks \<Longrightarrow>
   sum_list (map (\<lambda>k. mset (filter (\<lambda>r. h r = k) rs)) ks) = mset (filter (\<lambda>r. h r \<in> set ks) rs)"
proof (induction ks)
  case Nil
  show ?case by simp
next
  case (Cons k ks)
  then have k: "k \<notin> set ks" and d: "distinct ks" by auto
  have "mset (filter (\<lambda>r. h r = k) rs) + mset (filter (\<lambda>r. h r \<in> set ks) rs)
          = mset (filter (\<lambda>r. h r = k \<or> h r \<in> set ks) rs)"
    by (rule mset_filter_disjoint) (use k in auto)
  then show ?case using Cons.IH[OF d] by simp
qed

lemma py_index_single: "py_index [k] 0 = Inr k"
  by (simp add: py_index_def)

lemma batch_source_split_parts:
  assumes same: "\<forall>f \<in> set T. columns f = columns (hd T)"
      and one: "count_list (columns (hd T)) source = 1"
      and strs: "\<forall>f \<in> set T. \<forall>v \<in> set (column_of f source). \<exists>s. v = Some (CStr s)"
      and some: "concat (map rows T) \<noteq> []"
  shows "\<exists>parts. batch_source_split T source = Inr parts
       \<and> parts \<noteq> [] \<and> distinct (map fst parts)
       \<and> sum_list (map (\<lambda>(k, p). mset (rows p)) parts) = mset (concat (map rows T))
       \<and> (\<forall>(k, p) \<in> set parts.
             columns p = columns (hd T)
           \<and> rows p = filter (\<lambda>r. map_of (zip (columns (hd T)) r) source = Some k)
                        (concat (map rows T)))"
proof -
  define cols where "cols = columns (hd T)"
  define rs where "rs = concat (map rows T)"
  define g where "g = (\<lambda>r. case map_of (zip cols r) source of Some v \<Rightarrow> v | None \<Rightarrow> CNaN)"
  from some obtain first rest where T: "T = first # rest" by (cases T) auto
  have hd: "hd T = first" by (simp add: T)
  have all_same: "list_all (\<lambda>f. columns f = columns first) T"
    using same by (simp add: list_all_iff hd)
  obtain combined where cat: "pd_concat T = Inr combined"
    and ccols: "columns combined = cols" and crows: "rows combined = rs"
    using all_same by (auto simp: pd_concat_def T cols_def rs_def columns_def comp_def)
  have cell: "\<exists>s. map_of (zip cols r) source = Some (CStr s)" if "r \<in> set rs" for r
  proof -
    from that obtain f where f: "f \<in> set T" and r: "r \<in> set (rows f)"
      by (auto simp: rs_def)
    from same f have "columns f = cols" by (simp add: cols_def)
    with strs f r show ?thesis by (auto simp: column_of_def)
  qed
  have g_str: "\<exists>s. g r = CStr s \<and> map_of (zip cols r) source = Some (CStr s)" if "r \<in> set rs" for r
    using cell[OF that] by (auto simp: g_def)
  have series: "getitem_series combined source = Inr (map g rs)"
    using filter_label_single[OF one]
    by (simp add: getitem_series_def ccols crows cols_def[symmetric] g_def)
  define us where "us = unique (map g rs)"
  have dus: "distinct us" and sus: "set us = g ` set rs"
    by (simp_all add: us_def distinct_unique set_unique)
  have rs_ne: "rs \<noteq> []" using some by (simp add: rs_def)
  then have us_ne: "us \<noteq> []" using sus by (cases rs) auto
  define part where "part = (\<lambda>k. combined\<lparr>rows := filter (\<lambda>r. pd_eq (g r) k) rs\<rparr>)"
  have eq_key: "pd_eq (g r) k \<longleftrightarrow> g r = k" if "r \<in> set rs" for r k
    using g_str[OF that] by (auto simp: pd_eq_def)
  have eq_cell: "pd_eq (g r) k \<longleftrightarrow> map_of (zip cols r) source = Some k" if "r \<in> set rs" for r k
    using g_str[OF that] by (auto simp: pd_eq_def)
  have result: "batch_source_split T source = Inr (map (\<lambda>k. (k, part k)) us)"
  proof (cases "length us > 1")
    case True
    have "split_loop combined (map g rs) us [] =
            map (\<lambda>k. (k, getitem_mask combined (map (\<lambda>v. pd_eq v k) (map g rs)))) us"
      using split_loop_distinct[OF dus, of "[]" combined "map g rs"] by simp
    also have "\<dots> = map (\<lambda>k. (k, part k)) us"
      using getitem_mask_column[of combined _ g] by (simp add: part_def crows)
    finally show ?thesis
      using True by (simp add: batch_source_split_def cat series us_def[symmetric])
  next
    case False
    with us_ne obtain k where k: "us = [k]"
      by (cases us) (auto simp: Suc_le_eq)
    have "filter (\<lambda>r. pd_eq (g r) k) rs = filter (\<lambda>r. True) rs"
      by (rule filter_cong[OF refl]) (use sus k eq_key in auto)
    then have "part k = combined" by (simp add: part_def crows[symmetric])
    then show ?thesis
      using False
      by (simp add: batch_source_split_def cat series us_def[symmetric] k py_index_single
            dict_set_def)
  qed
  have rows_part: "rows (part k) = filter (\<lambda>r. map_of (zip cols r) source = Some k) rs" for k
    unfolding part_def by simp (rule filter_cong[OF refl], rule eq_cell)
  have rows_part': "rows (part k) = filter (\<lambda>r. g r = k) rs" for k
    unfolding part_def by simp (rule filter_cong[OF refl], rule eq_key)
  have cols_part: "columns (part k) = cols" for k
    by (simp add: part_def columns_def ccols[unfolded columns_def])
  have "sum_list (map (\<lambda>(k, p). mset (rows p)) (map (\<lambda>k. (k, part k)) us))
          = sum_list (map (\<lambda>k. mset (filter (\<lambda>r. g r = k) rs)) us)"
    by (simp add: comp_def rows_part')
  also have "\<dots> = mset (filter (\<lambda>r. g r \<in> set us) rs)"
    by (rule partition_sum[OF dus])
  also have "filter (\<lambda>r. g r \<in> set us) rs = filter (\<lambda>r. True) rs"
    by (rule filter_cong[OF refl]) (simp add: sus)
  finally have total: "sum_list (map (\<lambda>(k, p). mset (rows p)) (map (\<lambda>k. (k, part k)) us)) = mset rs"
    by simp
  have keys: "map fst (map (\<lambda>k. (k, part k)) us) = us" by (simp add: comp_def)
  show ?thesis
    unfolding cols_def[symmetric] rs_def[symmetric]
    using result us_ne dus total keys rows_part cols_part
    by (intro exI[of _ "map (\<lambda>k. (k, part k)) us"]) auto
qed

text \<open>
  C3, as the code has it. For tables with the same column labels, exactly one of them the
  source column, holding a string in every row, and at least one row in all,
  \<open>batch_source_split\<close> returns a dictionary that is not empty, whose keys are distinct,
  whose tables together hold the rows of the input as a multiset, and in which the table
  under a key holds exactly the input rows with that source, in their input order; so
  no row is in two tables.
\<close>

theorem batch_source_split_partitions:
  assumes "\<forall>f \<in> set T. columns f = columns (hd T)"
      and "count_list (columns (hd T)) source = 1"
      and "\<forall>f \<in> set T. \<forall>v \<in> set (column_of f source). \<exists>s. v = Some (CStr s)"
      and "concat (map rows T) \<noteq> []"
  shows "\<exists>parts. batch_source_split T source = Inr parts
       \<and> parts \<noteq> [] \<and> distinct (map fst parts)
       \<and> sum_list (map (\<lambda>(k, p). mset (rows p)) parts) = mset (concat (map rows T))
       \<and> (\<forall>(k, p) \<in> set parts.
             columns p = columns (hd T)
           \<and> rows p = filter (\<lambda>r. map_of (zip (columns (hd T)) r) source = Some k)
                        (concat (map rows T)))"
  using assms by (rule batch_source_split_parts)

text \<open>The theorem at two tables, two rows of \<open>hostA\<close> and one row of \<open>hostB\<close>.\<close>

theorem batch_source_split_partitions_witness:
  "\<exists>parts. batch_source_split [table_A, table_B] ''source'' = Inr parts
     \<and> map fst parts = [CStr ''hostA'', CStr ''hostB'']
     \<and> sum_list (map (\<lambda>(k, p). mset (rows p)) parts)
         = mset [[CNum 1, CStr ''hostA''], [CNum 2, CStr ''hostA''], [CNum 3, CStr ''hostB'']]"
proof -
  have c: "columns table_A = [''a'', ''source'']" "columns table_B = [''a'', ''source'']"
    by (simp_all add: columns_def table_A_def table_B_def)
  have r: "rows table_A = [[CNum 1, CStr ''hostA''], [CNum 2, CStr ''hostA'']]"
    "rows table_B = [[CNum 3, CStr ''hostB'']]"
    by (simp_all add: table_A_def table_B_def)
  have h1: "\<forall>f \<in> set [table_A, table_B]. columns f = columns (hd [table_A, table_B])"
    by (simp add: c)
  have h2: "count_list (columns (hd [table_A, table_B])) ''source'' = 1"
    by (simp add: c)
  have h3: "\<forall>f \<in> set [table_A, table_B]. \<forall>v \<in> set (column_of f ''source''). \<exists>s. v = Some (CStr s)"
    by (simp add: column_of_def c r)
  have h4: "concat (map rows [table_A, table_B]) \<noteq> []"
    by (simp add: r)
  have v: "batch_source_split [table_A, table_B] ''source'' =
             Inr [(CStr ''hostA'', table_A), (CStr ''hostB'', table_B\<lparr>header := header table_A\<rparr>)]"
    by (simp add: batch_source_split_def pd_concat_def getitem_series_def unique_def
          getitem_mask_def dict_set_def pd_eq_def columns_def table_A_def table_B_def)
  from batch_source_split_partitions[OF h1 h2 h3 h4]
  obtain parts where p: "batch_source_split [table_A, table_B] ''source'' = Inr parts"
    and s: "sum_list (map (\<lambda>(k, p). mset (rows p)) parts)
              = mset (concat (map rows [table_A, table_B]))"
    by blast
  from p v have "parts = [(CStr ''hostA'', table_A),
                          (CStr ''hostB'', table_B\<lparr>header := header table_A\<rparr>)]"
    by simp
  then have k: "map fst parts = [CStr ''hostA'', CStr ''hostB'']" by simp
  from s have t: "sum_list (map (\<lambda>(k, p). mset (rows p)) parts)
         = mset [[CNum 1, CStr ''hostA''], [CNum 2, CStr ''hostA''], [CNum 3, CStr ''hostB'']]"
    by (simp add: r)
  show ?thesis by (rule exI[of _ parts]) (intro conjI p k t)
qed

text \<open>
  A list of one table without rows is not empty, yet \<open>batch_source_split\<close> returns no
  dictionary: \<open>unique_sources[0]\<close> raises \<open>IndexError\<close>. A file whose \<open>data\<close> array is
  empty gives such a table.
\<close>

theorem no_rows_no_partition:
  "batch_source_split [empty_table] ''source'' = Inl IndexError
   \<and> snd (files_to_dfs no_rows_fs [''/data/hostA/snap-42/proc_2023-01-02.json'']
            [''a''] [] [''proc''] ''latin1'') = Inl IndexError"
proof -
  have a: "batch_source_split [empty_table] ''source'' = Inl IndexError"
    by (simp add: batch_source_split_def pd_concat_def getitem_series_def unique_def
          py_index_def empty_table_def columns_def)
  have s: "split_on CHR ''/'' ''/data/hostA/snap-42/proc_2023-01-02.json'' =
     ['''', ''data'', ''hostA'', ''snap-42'', ''proc_2023-01-02.json'']"
    by simp
  have p: "plugin_of ['''', ''data'', ''hostA'', ''snap-42'', ''proc_2023-01-02.json''] = Inr ''proc''"
    by (simp add: plugin_of_def py_index_def)
  have l: "load_df no_rows_fs ''/data/hostA/snap-42/proc_2023-01-02.json'' [] ''latin1'' =
             ([File_opened ''/data/hostA/snap-42/proc_2023-01-02.json'' ''latin1''],
              Inr \<lparr>lib = Pandas, header = [(''a'', Inferred)], rows = []\<rparr>)"
    by (simp add: load_df_def no_rows_fs_def read_file_to_df_def pd_DataFrame_def)
  have f: "fill_interested_cols \<lparr>lib = Pandas, header = [(''a'', Inferred)], rows = []\<rparr> [''a''] =
             Inr \<lparr>lib = Pandas, header = [(''a'', Inferred)], rows = []\<rparr>"
    by (simp add: fill_interested_cols_def getitem_columns_def columns_def)
  have m: "load_meta_cols ['''', ''data'', ''hostA'', ''snap-42'', ''proc_2023-01-02.json''] ''proc''
             \<lparr>lib = Pandas, header = [(''a'', Inferred)], rows = []\<rparr> =
           Inr \<lparr>lib = Pandas,
                 header = [(''a'', Inferred), (''snapshot_id'', Dtype ''int64''),
                           (''timestamp'', Dtype ''object''), (''source'', Dtype ''object''),
                           (''plugin'', Dtype ''object'')],
                 rows = []\<rparr>"
    using load_meta_cols_sample_path[of "''proc''" "\<lparr>lib = Pandas, header = [(''a'', Inferred)], rows = []\<rparr>"]
    unfolding sample_path_split
    by (simp add: setitem_scalar_def setitem_array_def columns_def)
  have ftd: "file_to_df no_rows_fs [''a''] [] [''proc''] ''latin1''
               ''/data/hostA/snap-42/proc_2023-01-02.json'' =
             ([File_opened ''/data/hostA/snap-42/proc_2023-01-02.json'' ''latin1''],
              Inr (Some \<lparr>lib = Pandas,
                 header = [(''a'', Inferred), (''snapshot_id'', Dtype ''int64''),
                           (''timestamp'', Dtype ''object''), (''source'', Dtype ''object''),
                           (''plugin'', Dtype ''object'')],
                 rows = []\<rparr>))"
    unfolding file_to_df_def s Let_def p l by (simp add: f m)
  have b: "snd (files_to_dfs no_rows_fs [''/data/hostA/snap-42/proc_2023-01-02.json'']
            [''a''] [] [''proc''] ''latin1'') = Inl IndexError"
    unfolding files_to_dfs_def
    by (simp add: ftd batch_source_split_def pd_concat_def getitem_series_def unique_def
          py_index_def columns_def)
  from a b show ?thesis by simp
qed

section \<open>One corrupt file in a batch\<close>

lemma load_df_invalid_json:
  assumes "\<forall>e. \<exists>m. fs p e = Inl (JSONDecodeError m)"
  shows "\<exists>l m. load_df fs p ce enc = (l, Inl (JSONDecodeError m))"
proof -
  from assms obtain m1 where a: "fs p enc = Inl (JSONDecodeError m1)" by blast
  from assms obtain m2 where b: "fs p ''utf-8'' = Inl (JSONDecodeError m2)" by blast
  show ?thesis
    by (cases "startswith (py_lower enc) ''utf''")
       (simp_all add: load_df_def Let_def a b read_file_to_df_raise)
qed

lemma file_to_df_invalid_json:
  assumes "plugin_of (split_on CHR ''/'' p) = Inr g" and "g \<in> set plugins"
      and "\<forall>e. \<exists>m. fs p e = Inl (JSONDecodeError m)"
  shows "\<exists>l m. file_to_df fs ci ce plugins enc p = (l, Inl (JSONDecodeError m))"
proof -
  have "\<exists>l m. load_df fs p ce enc = (l, Inl (JSONDecodeError m))"
    using assms(3) by (rule load_df_invalid_json)
  then obtain l m where "load_df fs p ce enc = (l, Inl (JSONDecodeError m))" by blast
  then show ?thesis
    by (simp add: file_to_df_def Let_def assms(1,2))
qed

text \<open>
  C6. In a batch of three paths where the first and the third yield tables and the
  second belongs to a recognized plugin but holds invalid JSON under every encoding,
  \<open>files_to_dfs\<close> logs the error line for the second path and goes on: its result is
  the partition of the tables of the first and third paths, the same as for the batch
  without the second path. When those two tables are normalized (same labels, one source
  column of strings) and hold a row, that result is a dictionary, not an exception, and
  its tables hold exactly the rows of the first and third tables.
\<close>

theorem corrupt_file_is_skipped:
  assumes f1: "file_to_df fs cols_include cols_exclude plugins_include encoding p1 = (l1, Inr (Some d1))"
      and f3: "file_to_df fs cols_include cols_exclude plugins_include encoding p3 = (l3, Inr (Some d3))"
      and g2: "plugin_of (split_on CHR ''/'' p2) = Inr g" "g \<in> set plugins_include"
      and bad: "\<forall>e. \<exists>m. fs p2 e = Inl (JSONDecodeError m)"
  shows "(\<exists>m. Log_error (''Unable to decode json file '' @ p2 @ '': '' @ m)
               \<in> set (fst (files_to_dfs fs [p1, p2, p3] cols_include cols_exclude
                              plugins_include encoding)))
       \<and> snd (files_to_dfs fs [p1, p2, p3] cols_include cols_exclude plugins_include encoding)
           = batch_source_split [d1, d3] ''source''
       \<and> snd (files_to_dfs fs [p1, p3] cols_include cols_exclude plugins_include encoding)
           = batch_source_split [d1, d3] ''source''
       \<and> (columns d3 = columns d1 \<and> count_list (columns d1) ''source'' = 1
            \<and> (\<forall>v \<in> set (column_of d1 ''source'' @ column_of d3 ''source'').
                   \<exists>s. v = Some (CStr s))
            \<and> rows d1 @ rows d3 \<noteq> [] \<longrightarrow>
            (\<exists>parts.
               snd (files_to_dfs fs [p1, p2, p3] cols_include cols_exclude plugins_include encoding)
                 = Inr parts
             \<and> parts \<noteq> []
             \<and> sum_list (map (\<lambda>(k, p). mset (rows p)) parts) = mset (rows d1 @ rows d3)))"
proof -
  have "\<exists>l m. file_to_df fs cols_include cols_exclude plugins_include encoding p2
                 = (l, Inl (JSONDecodeError m))"
    using g2 bad by (rule file_to_df_invalid_json)
  then obtain l2 m where f2: "file_to_df fs cols_include cols_exclude plugins_include encoding p2
                           = (l2, Inl (JSONDecodeError m))" by blast
  let ?trace = "l1 @ l2 @ Log_error (''Unable to decode json file '' @ p2 @ '': '' @ m) # l3"
  have loop3: "files_loop fs cols_include cols_exclude plugins_include encoding [p1, p2, p3] [] []
                 = (?trace, Inr [d1, d3])"
    by (simp add: f1 f2 f3)
  have loop2: "files_loop fs cols_include cols_exclude plugins_include encoding [p1, p3] [] []
                 = (l1 @ l3, Inr [d1, d3])"
    by (simp add: f1 f3)
  have t3: "fst (files_to_dfs fs [p1, p2, p3] cols_include cols_exclude plugins_include encoding)
              = ?trace"
    unfolding files_to_dfs_def loop3 by simp
  have r3: "snd (files_to_dfs fs [p1, p2, p3] cols_include cols_exclude plugins_include encoding)
              = batch_source_split [d1, d3] ''source''"
    unfolding files_to_dfs_def loop3 by simp
  have r2: "snd (files_to_dfs fs [p1, p3] cols_include cols_exclude plugins_include encoding)
              = batch_source_split [d1, d3] ''source''"
    unfolding files_to_dfs_def loop2 by simp
  have logged: "\<exists>m. Log_error (''Unable to decode json file '' @ p2 @ '': '' @ m)
               \<in> set (fst (files_to_dfs fs [p1, p2, p3] cols_include cols_exclude
                              plugins_include encoding))"
    unfolding t3 by (rule exI[of _ m]) simp
  have parts: "\<exists>parts.
               snd (files_to_dfs fs [p1, p2, p3] cols_include cols_exclude plugins_include encoding)
                 = Inr parts
             \<and> parts \<noteq> []
             \<and> sum_list (map (\<lambda>(k, p). mset (rows p)) parts) = mset (rows d1 @ rows d3)"
    if n: "columns d3 = columns d1 \<and> count_list (columns d1) ''source'' = 1
            \<and> (\<forall>v \<in> set (column_of d1 ''source'' @ column_of d3 ''source'').
                   \<exists>s. v = Some (CStr s))
            \<and> rows d1 @ rows d3 \<noteq> []"
  proof -
    have h1: "\<forall>f \<in> set [d1, d3]. columns f = columns (hd [d1, d3])" using n by simp
    have h2: "count_list (columns (hd [d1, d3])) ''source'' = 1" using n by simp
    have h3: "\<forall>f \<in> set [d1, d3]. \<forall>v \<in> set (column_of f ''source''). \<exists>s. v = Some (CStr s)"
      using n by auto
    have h4: "concat (map rows [d1, d3]) \<noteq> []" using n by simp
    from batch_source_split_parts[OF h1 h2 h3 h4]
    obtain ps where p: "batch_source_split [d1, d3] ''source'' = Inr ps"
      and ne: "ps \<noteq> []"
      and total: "sum_list (map (\<lambda>(k, p). mset (rows p)) ps) = mset (concat (map rows [d1, d3]))"
      by blast
    from total have total': "sum_list (map (\<lambda>(k, p). mset (rows p)) ps) = mset (rows d1 @ rows d3)"
      by simp
    show ?thesis
      unfolding r3 by (rule exI[of _ ps]) (intro conjI p ne total')
  qed
  from logged r3 r2 parts show ?thesis by blast
qed

lemma batch_fs_file_1:
  "file_to_df batch_fs [''a''] [] [''proc''] ''latin1'' ''/data/hostA/snap-42/proc_2023-01-02.json''
     = ([File_opened ''/data/hostA/snap-42/proc_2023-01-02.json'' ''latin1''],
        Inr (Some (batch_table 42 ''2023-01-02'' ''hostA'')))"
proof -
  have p: "plugin_of ['''', ''data'', ''hostA'', ''snap-42'', ''proc_2023-01-02.json''] = Inr ''proc''"
    by (simp add: plugin_of_def py_index_def)
  have l: "load_df batch_fs ''/data/hostA/snap-42/proc_2023-01-02.json'' [] ''latin1'' =
             ([File_opened ''/data/hostA/snap-42/proc_2023-01-02.json'' ''latin1''],
              Inr \<lparr>lib = Pandas, header = [(''a'', Inferred), (''b'', Inferred)],
                    rows = [[CNum 1, CNum 2]]\<rparr>)"
    by (simp add: load_df_def batch_fs_def read_file_to_df_def sample_record_set_def
          pd_DataFrame_def row_width_def)
  have f: "fill_interested_cols \<lparr>lib = Pandas, header = [(''a'', Inferred), (''b'', Inferred)],
                    rows = [[CNum 1, CNum 2]]\<rparr> [''a''] =
             Inr \<lparr>lib = Pandas, header = [(''a'', Inferred)], rows = [[CNum 1]]\<rparr>"
    by (simp add: fill_interested_cols_def getitem_columns_def columns_def)
  have m: "load_meta_cols ['''', ''data'', ''hostA'', ''snap-42'', ''proc_2023-01-02.json''] ''proc''
             \<lparr>lib = Pandas, header = [(''a'', Inferred)], rows = [[CNum 1]]\<rparr> =
           Inr (batch_table 42 ''2023-01-02'' ''hostA'')"
    using load_meta_cols_sample_path[of "''proc''"
            "\<lparr>lib = Pandas, header = [(''a'', Inferred)], rows = [[CNum 1]]\<rparr>"]
    unfolding sample_path_split
    by (simp add: setitem_scalar_def setitem_array_def columns_def batch_table_def)
  show ?thesis
    unfolding file_to_df_def sample_path_split Let_def p l by (simp add: f m)
qed

lemma batch_fs_file_3:
  "file_to_df batch_fs [''a''] [] [''proc''] ''latin1'' ''/data/hostB/snap-7/proc_2023-01-04.json''
     = ([File_opened ''/data/hostB/snap-7/proc_2023-01-04.json'' ''latin1''],
        Inr (Some (batch_table 7 ''2023-01-04'' ''hostB'')))"
proof -
  have s: "split_on CHR ''/'' ''/data/hostB/snap-7/proc_2023-01-04.json'' =
             ['''', ''data'', ''hostB'', ''snap-7'', ''proc_2023-01-04.json'']"
    by simp
  have p: "plugin_of ['''', ''data'', ''hostB'', ''snap-7'', ''proc_2023-01-04.json''] = Inr ''proc''"
    by (simp add: plugin_of_def py_index_def)
  have l: "load_df batch_fs ''/data/hostB/snap-7/proc_2023-01-04.json'' [] ''latin1'' =
             ([File_opened ''/data/hostB/snap-7/proc_2023-01-04.json'' ''latin1''],
              Inr \<lparr>lib = Pandas, header = [(''a'', Inferred), (''b'', Inferred)],
                    rows = [[CNum 1, CNum 2]]\<rparr>)"
    by (simp add: load_df_def batch_fs_def read_file_to_df_def sample_record_set_def
          pd_DataFrame_def row_width_def)
  have f: "fill_interested_cols \<lparr>lib = Pandas, header = [(''a'', Inferred), (''b'', Inferred)],
                    rows = [[CNum 1, CNum 2]]\<rparr> [''a''] =
             Inr \<lparr>lib = Pandas, header = [(''a'', Inferred)], rows = [[CNum 1]]\<rparr>"
    by (simp add: fill_interested_cols_def getitem_columns_def columns_def)
  have i: "py_int ''7'' = Inr 7"
    by (simp add: py_int_def py_strip_def is_space_def parse_nat_def digit_of_def)
  have t: "re_search ts_pattern ''proc_2023-01-04.json'' = Some ''2023-01-04''"
    by (simp add: ts_pattern_def)
  have m: "load_meta_cols ['''', ''data'', ''hostB'', ''snap-7'', ''proc_2023-01-04.json''] ''proc''
             \<lparr>lib = Pandas, header = [(''a'', Inferred)], rows = [[CNum 1]]\<rparr> =
           Inr (batch_table 7 ''2023-01-04'' ''hostB'')"
    by (simp add: load_meta_cols_def py_index_def i t setitem_scalar_def setitem_array_def
          columns_def batch_table_def del: re_search.simps)
  show ?thesis
    unfolding file_to_df_def s Let_def p l by (simp add: f m)
qed

text \<open>The theorem at a batch of two files of one row each around a file of invalid JSON.\<close>

theorem corrupt_file_is_skipped_witness:
  "(\<exists>m. Log_error (''Unable to decode json file /data/hostA/snap-42/proc_2023-01-03.json: '' @ m)
         \<in> set (fst (files_to_dfs batch_fs
                        [''/data/hostA/snap-42/proc_2023-01-02.json'',
                         ''/data/hostA/snap-42/proc_2023-01-03.json'',
                         ''/data/hostB/snap-7/proc_2023-01-04.json'']
                        [''a''] [] [''proc''] ''latin1'')))
   \<and> (\<exists>parts.
         snd (files_to_dfs batch_fs
                [''/data/hostA/snap-42/proc_2023-01-02.json'',
                 ''/data/hostA/snap-42/proc_2023-01-03.json'',
                 ''/data/hostB/snap-7/proc_2023-01-04.json'']
                [''a''] [] [''proc''] ''latin1'') = Inr parts
       \<and> sum_list (map (\<lambda>(k, p). mset (rows p)) parts)
           = mset [[CNum 1, CNum 42, CStr ''2023-01-02'', CStr ''hostA'', CStr ''proc''],
                   [CNum 1, CNum 7, CStr ''2023-01-04'', CStr ''hostB'', CStr ''proc'']])"
proof -
  let ?d1 = "batch_table 42 ''2023-01-02'' ''hostA''"
  let ?d3 = "batch_table 7 ''2023-01-04'' ''hostB''"
  let ?batch = "[''/data/hostA/snap-42/proc_2023-01-02.json'',
                 ''/data/hostA/snap-42/proc_2023-01-03.json'',
                 ''/data/hostB/snap-7/proc_2023-01-04.json'']"
  have g: "plugin_of (split_on CHR ''/'' ''/data/hostA/snap-42/proc_2023-01-03.json'') = Inr ''proc''"
    by (simp add: plugin_of_def py_index_def)
  have gi: "''proc'' \<in> set [''proc'']" by simp
  have bad: "\<forall>e. \<exists>m. batch_fs ''/data/hostA/snap-42/proc_2023-01-03.json'' e = Inl (JSONDecodeError m)"
    by (simp add: batch_fs_def)
  have n: "columns ?d3 = columns ?d1 \<and> count_list (columns ?d1) ''source'' = 1
            \<and> (\<forall>v \<in> set (column_of ?d1 ''source'' @ column_of ?d3 ''source'').
                   \<exists>s. v = Some (CStr s))
            \<and> rows ?d1 @ rows ?d3 \<noteq> []"
    by (simp add: column_of_def columns_def batch_table_def)
  note inst = corrupt_file_is_skipped[OF batch_fs_file_1 batch_fs_file_3 g gi bad]
  from inst have lg: "\<exists>m. Log_error (''Unable to decode json file ''
                       @ ''/data/hostA/snap-42/proc_2023-01-03.json'' @ '': '' @ m)
         \<in> set (fst (files_to_dfs batch_fs ?batch [''a''] [] [''proc''] ''latin1''))"
    by blast
  from inst n obtain parts where
    r: "snd (files_to_dfs batch_fs ?batch [''a''] [] [''proc''] ''latin1'') = Inr parts"
    and tot: "sum_list (map (\<lambda>(k, p). mset (rows p)) parts) = mset (rows ?d1 @ rows ?d3)"
    by blast
  from lg have lg': "\<exists>m. Log_error (''Unable to decode json file /data/hostA/snap-42/proc_2023-01-03.json: '' @ m)
         \<in> set (fst (files_to_dfs batch_fs ?batch [''a''] [] [''proc''] ''latin1''))"
    by simp
  have tot': "sum_list (map (\<lambda>(k, p). mset (rows p)) parts)
       = mset [[CNum 1, CNum 42, CStr ''2023-01-02'', CStr ''hostA'', CStr ''proc''],
               [CNum 1, CNum 7, CStr ''2023-01-04'', CStr ''hostB'', CStr ''proc'']]"
    using tot by (simp add: batch_table_def)
  have "\<exists>parts.
         snd (files_to_dfs batch_fs ?batch [''a''] [] [''proc''] ''latin1'') = Inr parts
       \<and> sum_list (map (\<lambda>(k, p). mset (rows p)) parts)
           = mset [[CNum 1, CNum 42, CStr ''2023-01-02'', CStr ''hostA'', CStr ''proc''],
                   [CNum 1, CNum 7, CStr ''2023-01-04'', CStr ''hostB'', CStr ''proc'']]"
    by (rule exI[of _ parts]) (intro conjI r tot')
  with lg' show ?thesis by (rule conjI)
qed

end
